theory Spec2Isabelle
  imports Main
begin

section \<open>Runtime locator: \<^verbatim>\<open>findPythonExecutable\<close> (src/main.js, lines 117-146)\<close>

text \<open>
  The function returns a promise and probes the candidate commands one after the other.
  Each probe is a child process running \<^verbatim>\<open>command --version\<close> with three handlers:
  \<^verbatim>\<open>error\<close> and stderr data call \<^verbatim>\<open>tryNext(index + 1)\<close>, stdout data calls
  \<^verbatim>\<open>resolve(command)\<close>. The handlers are never removed and a probe is never killed, so
  the model keeps every probe that was spawned and lets each of them deliver any number of
  events, in any order. A promise settles once: later calls of \<^verbatim>\<open>resolve\<close> are ignored.
\<close>

definition commands :: "string list" where
  "commands = [''python'', ''python'', ''py'']"

text \<open>A probe process, with the two variables its handlers close over.\<close>

record probe =
  index :: nat
  command :: string

text \<open>
  The state of one call: the probes spawned so far (probe \<open>p\<close> is \<open>probes l ! p\<close>) and the
  promise, \<open>None\<close> while it is pending, \<open>Some None\<close> once resolved with \<^verbatim>\<open>null\<close>,
  \<open>Some (Some c)\<close> once resolved with the command \<open>c\<close>.
\<close>

record locator =
  probes :: "probe list"
  result :: "string option option"

definition resolve :: "string option \<Rightarrow> locator \<Rightarrow> locator" where
  "resolve v l = (case result l of None \<Rightarrow> l\<lparr>result := Some v\<rparr> | Some r \<Rightarrow> l)"

definition tryNext :: "nat \<Rightarrow> locator \<Rightarrow> locator" where
  "tryNext i l =
     (if i \<ge> length commands then resolve None l
      else l\<lparr>probes := probes l @ [\<lparr>index = i, command = commands ! i\<rparr>]\<rparr>)"

text \<open>
  What a probe process can deliver: the \<^verbatim>\<open>error\<close> event (the spawn failed), a chunk on
  stdout, a chunk on stderr. The number names the probe.
\<close>

datatype probe_event = ProcError nat | StdoutData nat | StderrData nat

fun probe_handler :: "probe_event \<Rightarrow> locator \<Rightarrow> locator" where
  "probe_handler (ProcError p) l =
     (if p < length (probes l) then tryNext (index (probes l ! p) + 1) l else l)"
| "probe_handler (StdoutData p) l =
     (if p < length (probes l) then resolve (Some (command (probes l ! p))) l else l)"
| "probe_handler (StderrData p) l =
     (if p < length (probes l) then tryNext (index (probes l ! p) + 1) l else l)"

definition locator_init :: locator where
  "locator_init = tryNext 0 \<lparr>probes = [], result = None\<rparr>"

definition deliver :: "locator \<Rightarrow> probe_event list \<Rightarrow> locator" where
  "deliver l evs = foldl (\<lambda>l e. probe_handler e l) l evs"

text \<open>The call \<^verbatim>\<open>findPythonExecutable()\<close> followed by the probe events \<open>evs\<close>.\<close>

definition findPythonExecutable :: "probe_event list \<Rightarrow> locator" where
  "findPythonExecutable evs = deliver locator_init evs"


section \<open>The host process: window, backend handle, dialogs (src/main.js)\<close>

text \<open>
  What the main process sends to the renderer with \<^verbatim>\<open>mainWindow.webContents.send\<close>: a
  channel name and a payload. The code a \<^verbatim>\<open>close\<close> handler is called with is a number,
  or \<^verbatim>\<open>null\<close> (the process was ended by a signal) or \<^verbatim>\<open>undefined\<close> (the handler was
  called without it): \<open>None\<close>.
\<close>

datatype payload = NoPayload | Text string | ClosedInfo "int option" bool

record msgbox =
  mtype :: string
  title :: string
  message :: string
  detail :: string

datatype dialog = ErrorBox string string | MessageBox msgbox

text \<open>
  The surroundings of one run: the \<^verbatim>\<open>--dev\<close> flag, \<^verbatim>\<open>__dirname\<close>,
  \<^verbatim>\<open>process.resourcesPath\<close>, the library functions \<^verbatim>\<open>path.join\<close> and
  \<^verbatim>\<open>fs.existsSync\<close>, and whether the constructor of \<^verbatim>\<open>PythonShell\<close> throws (with
  which message).
\<close>

record env =
  isDev :: bool
  dirname :: string
  resourcesPath :: "string option"
  path_join :: "string list \<Rightarrow> string"
  existsSync :: "string \<Rightarrow> bool"
  shell_throws :: "string option"

datatype continuation = StartContinuation | InstallContinuation

datatype timer_callback = StartupCallback | RestartCallback

text \<open>An install subprocess with the two strings its handlers accumulate (\<^verbatim>\<open>output\<close> and
  \<^verbatim>\<open>errorOutput\<close> in the source; \<open>output\<close> is a keyword here).\<close>

record install =
  output_acc :: string
  errorOutput :: string
  exited :: bool

text \<open>
  The state of the main process. \<open>mainWindow\<close> and \<open>pythonProcess\<close> are the two module
  variables (a window object is only ever tested for being there; a backend is named by its
  number). \<open>live\<close> holds the backend subprocesses that were created and have not yet closed,
  \<open>killed\<close> those \<^verbatim>\<open>kill()\<close> was called on. \<open>timers\<close> are the pending
  \<^verbatim>\<open>setTimeout\<close> calls with their delay in milliseconds, \<open>locators\<close> the calls of
  \<^verbatim>\<open>findPythonExecutable\<close> with the function given to \<^verbatim>\<open>then\<close>.
\<close>

record host =
  mainWindow :: bool
  pythonProcess :: "nat option"
  shells :: nat
  live :: "nat list"
  killed :: "nat list"
  sent :: "(string \<times> payload) list"
  dialogs :: "dialog list"
  timers :: "(timer_callback \<times> nat) list"
  locators :: "(locator \<times> continuation) list"
  installs :: "install list"

definition host_init :: host where
  "host_init = \<lparr>mainWindow = False, pythonProcess = None, shells = 0, live = [], killed = [],
     sent = [], dialogs = [], timers = [], locators = [], installs = []\<rparr>"

definition send :: "string \<Rightarrow> payload \<Rightarrow> host \<Rightarrow> host" where
  "send channel p h = h\<lparr>sent := sent h @ [(channel, p)]\<rparr>"

definition showErrorBox :: "string \<Rightarrow> string \<Rightarrow> host \<Rightarrow> host" where
  "showErrorBox t content h = h\<lparr>dialogs := dialogs h @ [ErrorBox t content]\<rparr>"

definition showMessageBox :: "msgbox \<Rightarrow> host \<Rightarrow> host" where
  "showMessageBox options h = h\<lparr>dialogs := dialogs h @ [MessageBox options]\<rparr>"

definition setTimeout :: "timer_callback \<Rightarrow> nat \<Rightarrow> host \<Rightarrow> host" where
  "setTimeout cb ms h = h\<lparr>timers := timers h @ [(cb, ms)]\<rparr>"

text \<open>\<^verbatim>\<open>findPythonExecutable().then(k)\<close>: the first probe is spawned at once.\<close>

definition locate_then :: "continuation \<Rightarrow> host \<Rightarrow> host" where
  "locate_then k h = h\<lparr>locators := locators h @ [(locator_init, k)]\<rparr>"

definition getResourcePath :: "env \<Rightarrow> string" where
  "getResourcePath e =
     (if isDev e then dirname e
      else (case resourcesPath e of
              None \<Rightarrow> dirname e
            | Some r \<Rightarrow> if r = [] then dirname e else path_join e [r]))"

subsection \<open>\<^verbatim>\<open>startPythonBackend\<close> (lines 157-250)\<close>

definition startPythonBackend :: "host \<Rightarrow> host" where
  "startPythonBackend h = locate_then StartContinuation h"

definition python_not_found :: string where
  "python_not_found = ''Python not found. Please install Python from https://python.org''"

definition python_not_found_detail :: string where
  "python_not_found_detail =
     ''Python is required to run this application.\<newline>\<newline>'' @
     ''Please install Python from https://python.org and make sure it is added to your PATH.\<newline>\<newline>'' @
     ''After installing Python, restart the application.''"

text \<open>
  The three handlers registered on a new \<^verbatim>\<open>PythonShell\<close>. The close handler assigns the
  module variable, whichever backend it was registered on.
\<close>

definition on_message :: "string \<Rightarrow> host \<Rightarrow> host" where
  "on_message m h = (if mainWindow h then send ''python-output'' (Text m) h else h)"

definition on_stderr :: "string \<Rightarrow> host \<Rightarrow> host" where
  "on_stderr err h = (if mainWindow h then send ''python-error'' (Text err) h else h)"

definition on_close :: "int option \<Rightarrow> host \<Rightarrow> host" where
  "on_close code h =
     (let h1 = h\<lparr>pythonProcess := None\<rparr>
      in if mainWindow h1 \<and> code \<noteq> Some 0
         then send ''python-closed'' (ClosedInfo code True) h1 else h1)"

text \<open>
  The function given to \<^verbatim>\<open>then\<close>, called with the command the locator resolved to.
  \<^verbatim>\<open>!pythonCommand\<close> holds for \<^verbatim>\<open>null\<close> and for the empty string.
\<close>

definition startPythonBackend_then :: "env \<Rightarrow> string option \<Rightarrow> host \<Rightarrow> host" where
  "startPythonBackend_then e pythonCommand h =
     (if pythonCommand = None \<or> pythonCommand = Some [] then
        (if mainWindow h
         then showErrorBox ''Python Not Found'' python_not_found_detail
                (send ''python-error'' (Text python_not_found) h)
         else h)
      else
        (let resourcePath = getResourcePath e;
             scriptPath = path_join e [resourcePath, ''src'', ''app.py'']
         in if \<not> existsSync e scriptPath then
              (if mainWindow h
               then send ''python-error'' (Text (''Python script not found: '' @ scriptPath)) h
               else h)
            else
              (case shell_throws e of
                 None \<Rightarrow>
                   h\<lparr>pythonProcess := Some (shells h), live := live h @ [shells h],
                     shells := shells h + 1\<rparr>
               | Some msg \<Rightarrow>
                   (if mainWindow h then send ''python-error'' (Text msg) h else h))))"

subsection \<open>\<^verbatim>\<open>installPythonDependencies\<close> (lines 252-304)\<close>

definition installPythonDependencies :: "host \<Rightarrow> host" where
  "installPythonDependencies h = locate_then InstallContinuation h"

definition installPythonDependencies_then :: "string option \<Rightarrow> host \<Rightarrow> host" where
  "installPythonDependencies_then pythonCommand h =
     (if pythonCommand = None \<or> pythonCommand = Some [] then
        showErrorBox ''Python Not Found'' ''Cannot install dependencies: Python not found.'' h
      else h\<lparr>installs := installs h @ [\<lparr>output_acc = [], errorOutput = [], exited = False\<rparr>]\<rparr>)"

definition install_stdout :: "nat \<Rightarrow> string \<Rightarrow> host \<Rightarrow> host" where
  "install_stdout k d h =
     h\<lparr>installs := (installs h)[k := (installs h ! k)\<lparr>output_acc := output_acc (installs h ! k) @ d\<rparr>]\<rparr>"

definition install_stderr :: "nat \<Rightarrow> string \<Rightarrow> host \<Rightarrow> host" where
  "install_stderr k d h =
     h\<lparr>installs := (installs h)[k := (installs h ! k)\<lparr>errorOutput := errorOutput (installs h ! k) @ d\<rparr>]\<rparr>"

definition dependencies_installed :: msgbox where
  "dependencies_installed =
     \<lparr>mtype = ''info'', title = ''Dependencies Installed'',
      message = ''Python dependencies installed successfully!'',
      detail = ''The required Python packages have been installed. You may need to restart the application.''\<rparr>"

definition install_close :: "nat \<Rightarrow> int option \<Rightarrow> host \<Rightarrow> host" where
  "install_close k code h =
     (let i = installs h ! k;
          h1 = h\<lparr>installs := (installs h)[k := i\<lparr>exited := True\<rparr>]\<rparr>
      in if code = Some 0 then showMessageBox dependencies_installed h1
         else showErrorBox ''Installation Failed''
                (''Failed to install dependencies.\<newline>\<newline>Output: '' @ output_acc i @
                 ''\<newline>Errors: '' @ errorOutput i) h1)"

subsection \<open>\<^verbatim>\<open>stopPythonBackend\<close> and \<^verbatim>\<open>restartPythonBackend\<close> (lines 306-324)\<close>

definition stopPythonBackend :: "host \<Rightarrow> host" where
  "stopPythonBackend h =
     (case pythonProcess h of
        None \<Rightarrow> h
      | Some p \<Rightarrow>
          (let h1 = h\<lparr>killed := killed h @ [p]\<rparr>;
               h2 = h1\<lparr>pythonProcess := None\<rparr>
           in if mainWindow h2 then send ''python-stopped'' NoPayload h2 else h2))"

definition restartPythonBackend :: "host \<Rightarrow> host" where
  "restartPythonBackend h = setTimeout RestartCallback 1000 (stopPythonBackend h)"

text \<open>The two functions given to \<^verbatim>\<open>setTimeout\<close> (lines 318-323 and 344-346).\<close>

fun timeout :: "timer_callback \<Rightarrow> host \<Rightarrow> host" where
  "timeout StartupCallback h = startPythonBackend h"
| "timeout RestartCallback h =
     (let h1 = startPythonBackend h
      in if mainWindow h1 then send ''python-restarted'' NoPayload h1 else h1)"


subsection \<open>The handlers of the main process as one step function\<close>

text \<open>
  Node runs one handler at a time. An event is what makes a handler run: the application
  getting ready (\<^verbatim>\<open>createWindow\<close>, then the start delayed by a second), the window or the
  application closing, a menu entry, the oldest pending timer firing (all delays are the
  same), an event of a probe of the \<open>k\<close>-th locator call, of a backend (a line, a stderr
  chunk, its exit with a status), of an install subprocess. The function given to
  \<^verbatim>\<open>then\<close> runs when its promise settles.
\<close>

datatype event =
    AppReady
  | WindowClosed
  | WindowAllClosed
  | BeforeQuit
  | MenuRestart
  | MenuStop
  | MenuInstall
  | Timeout
  | Probe nat probe_event
  | ShellMessage nat string
  | ShellStderr nat string
  | ShellClose nat "int option"
  | InstallStdout nat string
  | InstallStderr nat string
  | InstallClose nat "int option"

fun continue :: "env \<Rightarrow> continuation \<Rightarrow> string option \<Rightarrow> host \<Rightarrow> host" where
  "continue e StartContinuation r h = startPythonBackend_then e r h"
| "continue e InstallContinuation r h = installPythonDependencies_then r h"

definition probe_step :: "env \<Rightarrow> nat \<Rightarrow> probe_event \<Rightarrow> host \<Rightarrow> host" where
  "probe_step e k ev h =
     (if k < length (locators h) then
        (let l = fst (locators h ! k);
             c = snd (locators h ! k);
             l' = probe_handler ev l;
             h1 = h\<lparr>locators := (locators h)[k := (l', c)]\<rparr>
         in case result l of
              None \<Rightarrow> (case result l' of None \<Rightarrow> h1 | Some r \<Rightarrow> continue e c r h1)
            | Some r \<Rightarrow> h1)
      else h)"

text \<open>
  A backend is a \<^verbatim>\<open>PythonShell\<close> of the library python-shell, which is not among the
  sources. The library emits its \<^verbatim>\<open>close\<close> event without arguments: whatever status the
  process exited with (\<open>None\<close>: ended by a signal), the parameter \<^verbatim>\<open>code\<close> of the handler
  registered in \<^verbatim>\<open>startPythonBackend\<close> is \<^verbatim>\<open>undefined\<close>. The install subprocess is a plain
  child process, whose \<^verbatim>\<open>close\<close> event does carry the exit code.
\<close>

definition close_argument :: "int option \<Rightarrow> int option" where
  "close_argument status = None"

fun step :: "env \<Rightarrow> event \<Rightarrow> host \<Rightarrow> host" where
  "step e AppReady h = setTimeout StartupCallback 1000 (h\<lparr>mainWindow := True\<rparr>)"
| "step e WindowClosed h = h\<lparr>mainWindow := False\<rparr>"
| "step e WindowAllClosed h = stopPythonBackend h"
| "step e BeforeQuit h = stopPythonBackend h"
| "step e MenuRestart h = restartPythonBackend h"
| "step e MenuStop h = stopPythonBackend h"
| "step e MenuInstall h = installPythonDependencies h"
| "step e Timeout h =
     (case timers h of [] \<Rightarrow> h | t # ts \<Rightarrow> timeout (fst t) (h\<lparr>timers := ts\<rparr>))"
| "step e (Probe k ev) h = probe_step e k ev h"
| "step e (ShellMessage p m) h = (if p \<in> set (live h) then on_message m h else h)"
| "step e (ShellStderr p err) h = (if p \<in> set (live h) then on_stderr err h else h)"
| "step e (ShellClose p status) h =
     (if p \<in> set (live h)
      then on_close (close_argument status) (h\<lparr>live := removeAll p (live h)\<rparr>) else h)"
| "step e (InstallStdout k d) h =
     (if k < length (installs h) \<and> \<not> exited (installs h ! k) then install_stdout k d h else h)"
| "step e (InstallStderr k d) h =
     (if k < length (installs h) \<and> \<not> exited (installs h ! k) then install_stderr k d h else h)"
| "step e (InstallClose k code) h =
     (if k < length (installs h) \<and> \<not> exited (installs h ! k) then install_close k code h else h)"

definition run :: "env \<Rightarrow> host \<Rightarrow> event list \<Rightarrow> host" where
  "run e h evs = foldl (\<lambda>h ev. step e ev h) h evs"

section \<open>The bridge to the renderer (src/preload.js) and the handlers it reaches\<close>

text \<open>
  \<^verbatim>\<open>contextBridge.exposeInMainWorld("electronAPI", {...})\<close>: the object the page sees, as
  the list of its properties. Each is an arrow function of one argument (a callback, the
  dialog options, a channel name; \<^verbatim>\<open>getAppVersion\<close> ignores it) whose body is one call of
  \<^verbatim>\<open>ipcRenderer\<close>, and which returns to the page what that call returns. The type \<open>'a\<close>
  stands for the values of the page.

  The three methods of \<^verbatim>\<open>ipcRenderer\<close> used: \<^verbatim>\<open>on\<close> registers the listener it is given,
  as it is, and returns the emitter it was called on, that is \<^verbatim>\<open>ipcRenderer\<close> itself;
  \<^verbatim>\<open>removeAllListeners\<close> returns the emitter too; \<^verbatim>\<open>invoke\<close> returns a promise of the
  handler's reply.
\<close>

datatype 'a ipc = On string 'a | Invoke string "'a list" | RemoveAllListeners 'a

datatype returned = IpcRenderer | ReplyPromise

definition ipcRenderer_on :: "string \<Rightarrow> 'a \<Rightarrow> 'a ipc \<times> returned" where
  "ipcRenderer_on channel listener = (On channel listener, IpcRenderer)"

definition ipcRenderer_invoke :: "string \<Rightarrow> 'a list \<Rightarrow> 'a ipc \<times> returned" where
  "ipcRenderer_invoke channel args = (Invoke channel args, ReplyPromise)"

definition ipcRenderer_removeAllListeners :: "'a \<Rightarrow> 'a ipc \<times> returned" where
  "ipcRenderer_removeAllListeners channel = (RemoveAllListeners channel, IpcRenderer)"

definition electronAPI :: "(string \<times> ('a \<Rightarrow> 'a ipc \<times> returned)) list" where
  "electronAPI =
     [(''onPythonOutput'', \<lambda>callback. ipcRenderer_on ''python-output'' callback),
      (''onPythonError'', \<lambda>callback. ipcRenderer_on ''python-error'' callback),
      (''onPythonClosed'', \<lambda>callback. ipcRenderer_on ''python-closed'' callback),
      (''onPythonStopped'', \<lambda>callback. ipcRenderer_on ''python-stopped'' callback),
      (''onPythonRestarted'', \<lambda>callback. ipcRenderer_on ''python-restarted'' callback),
      (''getAppVersion'', \<lambda>_. ipcRenderer_invoke ''get-app-version'' []),
      (''showMessageBox'', \<lambda>options. ipcRenderer_invoke ''show-message-box'' [options]),
      (''removeAllListeners'', \<lambda>channel. ipcRenderer_removeAllListeners channel)]"

text \<open>
  The page calling \<^verbatim>\<open>window.electronAPI[name](arg)\<close>: the call of \<^verbatim>\<open>ipcRenderer\<close> made
  and the value returned to the page; \<open>None\<close> when the object has no such property.
\<close>

definition bridge_call :: "string \<Rightarrow> 'a \<Rightarrow> ('a ipc \<times> returned) option" where
  "bridge_call name arg = map_option (\<lambda>f. f arg) (map_of electronAPI name)"



text \<open>
  The channels \<^verbatim>\<open>ipcMain.handle\<close> is called with (src/main.js, lines 327-338), and
  what each handler does to the host: \<open>None\<close> where no handler is registered.
\<close>

definition ipcMain_handle :: "string \<Rightarrow> msgbox \<Rightarrow> host \<Rightarrow> host option" where
  "ipcMain_handle channel options h =
     (if channel = ''get-app-version'' then Some h
      else if channel = ''show-message-box'' then Some (showMessageBox options h)
      else if channel = ''install-dependencies'' then Some (installPythonDependencies h)
      else None)"


section \<open>Notions used to state the properties\<close>

text \<open>Probe \<open>q\<close> reported a spawn error or wrote to stderr, somewhere in \<open>evs\<close>.\<close>

definition failed :: "probe_event list \<Rightarrow> nat \<Rightarrow> bool" where
  "failed evs q \<longleftrightarrow> ProcError q \<in> set evs \<or> StderrData q \<in> set evs"

text \<open>
  A probe of candidate \<open>j + 1\<close> is only spawned by a failing probe of candidate \<open>j\<close>: every
  candidate before that of a spawned probe has a probe that failed.
\<close>

definition chain :: "probe_event list \<Rightarrow> probe list \<Rightarrow> bool" where
  "chain evs ps \<longleftrightarrow>
     (\<forall>p < length ps. \<forall>j < index (ps ! p). \<exists>q < length ps. index (ps ! q) = j \<and> failed evs q)"

text \<open>
  The specification's accepted probe, in its words: one that produced standard-output data
  and no standard-error data.
\<close>

definition spec_clean_probe :: "probe_event list \<Rightarrow> nat \<Rightarrow> bool" where
  "spec_clean_probe evs p \<longleftrightarrow> StdoutData p \<in> set evs \<and> StderrData p \<notin> set evs"

text \<open>
  A run from the source tree, for the examples: \<^verbatim>\<open>path.join\<close> on plain segments puts a
  slash between them, and the backend script is on disk.
\<close>

definition join_slash :: "string list \<Rightarrow> string" where
  "join_slash ps = (case ps of [] \<Rightarrow> ''.'' | p # qs \<Rightarrow> foldl (\<lambda>a b. a @ ''/'' @ b) p qs)"

definition dev_env :: env where
  "dev_env = \<lparr>isDev = True, dirname = ''/app'', resourcesPath = None, path_join = join_slash,
     existsSync = (\<lambda>p. p = ''/app/src/app.py''), shell_throws = None\<rparr>"

text \<open>The same run with the backend script missing.\<close>

definition no_script_env :: env where
  "no_script_env = dev_env\<lparr>existsSync := (\<lambda>p. False)\<rparr>"

text \<open>The path \<^verbatim>\<open>startPythonBackend\<close> looks for, and when its callback gets to spawn.\<close>

definition script_path :: "env \<Rightarrow> string" where
  "script_path e = path_join e [getResourcePath e, ''src'', ''app.py'']"

definition can_spawn :: "env \<Rightarrow> string option \<Rightarrow> bool" where
  "can_spawn e pythonCommand \<longleftrightarrow>
     pythonCommand \<noteq> None \<and> pythonCommand \<noteq> Some [] \<and> existsSync e (script_path e) \<and>
     shell_throws e = None"

text \<open>
  What a backend writes while it runs, as an event of backend \<open>p\<close>, and the message each
  line or chunk is relayed as.
\<close>

datatype line = Message string | Stderr string

fun shell_event :: "nat \<Rightarrow> line \<Rightarrow> event" where
  "shell_event p (Message m) = ShellMessage p m"
| "shell_event p (Stderr err) = ShellStderr p err"

fun relayed :: "line \<Rightarrow> string \<times> payload" where
  "relayed (Message m) = (''python-output'', Text m)"
| "relayed (Stderr err) = (''python-error'', Text err)"

text \<open>The five channels and the payloads that go with them.\<close>

definition lifecycle_channels :: "string list" where
  "lifecycle_channels =
     [''python-output'', ''python-error'', ''python-closed'', ''python-stopped'',
      ''python-restarted'']"

fun lifecycle_message :: "string \<times> payload \<Rightarrow> bool" where
  "lifecycle_message (ch, Text t) = (ch = ''python-output'' \<or> ch = ''python-error'')"
| "lifecycle_message (ch, ClosedInfo code u) = (ch = ''python-closed'' \<and> u \<and> code \<noteq> Some 0)"
| "lifecycle_message (ch, NoPayload) = (ch = ''python-stopped'' \<or> ch = ''python-restarted'')"

text \<open>The data an install subprocess writes, chunk by chunk, and the text per stream.\<close>

datatype chunk = Out string | Err string

fun chunk_event :: "nat \<Rightarrow> chunk \<Rightarrow> event" where
  "chunk_event k (Out d) = InstallStdout k d"
| "chunk_event k (Err d) = InstallStderr k d"

fun stdout_text :: "chunk list \<Rightarrow> string" where
  "stdout_text [] = []"
| "stdout_text (Out d # cs) = d @ stdout_text cs"
| "stdout_text (Err d # cs) = stdout_text cs"

fun stderr_text :: "chunk list \<Rightarrow> string" where
  "stderr_text [] = []"
| "stderr_text (Out d # cs) = stderr_text cs"
| "stderr_text (Err d # cs) = d @ stderr_text cs"

text \<open>
  The locator as the specification describes it, for runs in which every probe delivers one
  outcome: probe \<open>k\<close> is the probe of candidate \<open>k\<close>, the candidates are tried in the order
  of the list, and the result is the first candidate whose probe writes to stdout, or
  \<^verbatim>\<open>null\<close> once all have failed (\<open>None\<close> while neither has happened).
\<close>

datatype outcome = SpawnFails | WritesStderr | WritesStdout

fun outcome_event :: "nat \<Rightarrow> outcome \<Rightarrow> probe_event" where
  "outcome_event p SpawnFails = ProcError p"
| "outcome_event p WritesStderr = StderrData p"
| "outcome_event p WritesStdout = StdoutData p"

fun one_outcome_each :: "nat \<Rightarrow> outcome list \<Rightarrow> probe_event list" where
  "one_outcome_each p [] = []"
| "one_outcome_each p (x # xs) = outcome_event p x # one_outcome_each (Suc p) xs"

fun spec_locate :: "nat \<Rightarrow> outcome list \<Rightarrow> string option option" where
  "spec_locate i [] = None"
| "spec_locate i (WritesStdout # xs) = Some (Some (commands ! i))"
| "spec_locate i (x # xs) =
     (if i + 1 < length commands then spec_locate (i + 1) xs else Some None)"

text \<open>
  Whether a working \<^verbatim>\<open>ipcRenderer\<close> reaches the page when the preload script hands one
  over, as the value a property returns or as the sender of the event a listener is called
  with, is decided by the context bridge of the Electron version in use, which is not among
  the sources: the parameter \<open>lets_through\<close>. With a working \<^verbatim>\<open>ipcRenderer\<close> the page can
  invoke any channel; without one, only the channels the properties invoke.
\<close>

definition hands_over :: "unit ipc \<times> returned \<Rightarrow> bool" where
  "hands_over r \<longleftrightarrow>
     snd r = IpcRenderer \<or> (case fst r of On c listener \<Rightarrow> True | _ \<Rightarrow> False)"

definition page_gets_ipcRenderer :: "bool \<Rightarrow> bool" where
  "page_gets_ipcRenderer lets_through \<longleftrightarrow>
     lets_through \<and> list_ex (\<lambda>pr. hands_over (snd pr ())) electronAPI"

definition page_can_invoke :: "bool \<Rightarrow> string \<Rightarrow> bool" where
  "page_can_invoke lets_through channel \<longleftrightarrow>
     list_ex (\<lambda>pr. case fst (snd pr ()) of Invoke c args \<Rightarrow> c = channel | _ \<Rightarrow> False)
       (electronAPI :: (string \<times> (unit \<Rightarrow> unit ipc \<times> returned)) list)
     \<or> page_gets_ipcRenderer lets_through"

section \<open>Properties of the locator\<close>

lemma resolve_probes: "probes (resolve v l) = probes l"
  by (simp add: resolve_def split: option.splits)

lemma resolve_result:
  "result (resolve v l) = (case result l of None \<Rightarrow> Some v | Some r \<Rightarrow> Some r)"
  by (simp add: resolve_def split: option.splits)

lemma tryNext_probes:
  "probes (tryNext i l) =
     (if i < length commands then probes l @ [\<lparr>index = i, command = commands ! i\<rparr>]
      else probes l)"
  by (simp add: tryNext_def resolve_probes)

lemma tryNext_result:
  "result (tryNext i l) =
     (if i < length commands then result l
      else (case result l of None \<Rightarrow> Some None | Some r \<Rightarrow> Some r))"
  by (simp add: tryNext_def resolve_result)

lemma deliver_Nil: "deliver l [] = l"
  by (simp add: deliver_def)

lemma deliver_snoc: "deliver l (evs @ [e]) = probe_handler e (deliver l evs)"
  by (simp add: deliver_def)

lemma deliver_append: "deliver l (xs @ ys) = deliver (deliver l xs) ys"
  by (simp add: deliver_def)

lemma locator_init_eq:
  "locator_init = \<lparr>probes = [\<lparr>index = 0, command = ''python''\<rparr>], result = None\<rparr>"
  by (simp add: locator_init_def tryNext_def commands_def)

text \<open>A settled promise stays as it is, whatever the probes deliver afterwards.\<close>

lemma handler_sticky: "result l = Some r \<Longrightarrow> result (probe_handler e l) = Some r"
  by (cases e) (simp_all add: tryNext_result resolve_result)

lemma deliver_sticky: "result l = Some r \<Longrightarrow> result (deliver l evs) = Some r"
  by (induction evs rule: rev_induct) (simp_all add: deliver_Nil deliver_snoc handler_sticky)

lemma handler_probes_ext: "\<exists>ext. probes (probe_handler e l) = probes l @ ext"
  by (cases e) (simp_all add: tryNext_probes resolve_probes)

text \<open>Every probe runs a command of the list, the one at the index it was spawned for.\<close>

lemma probes_wf:
  "pr \<in> set (probes (deliver locator_init evs)) \<Longrightarrow>
     index pr < length commands \<and> command pr = commands ! index pr"
proof (induction evs arbitrary: pr rule: rev_induct)
  case Nil
  then show ?case by (simp add: deliver_Nil locator_init_eq commands_def)
next
  case (snoc e evs)
  then show ?case
    by (cases e) (auto simp: deliver_snoc tryNext_probes resolve_probes split: if_splits)
qed

lemma chain_mono: "chain evs ps \<Longrightarrow> chain (evs @ [e]) ps"
  unfolding chain_def failed_def by fastforce

lemma chain_grow:
  assumes c: "chain evs ps" and p: "p < length ps" and f: "failed (evs @ [e]) p"
  shows "chain (evs @ [e]) (ps @ [\<lparr>index = index (ps ! p) + 1, command = c\<rparr>])"
  unfolding chain_def
proof (intro allI impI)
  fix p' j
  let ?ps = "ps @ [\<lparr>index = index (ps ! p) + 1, command = c\<rparr>]"
  assume p': "p' < length ?ps" and j: "j < index (?ps ! p')"
  have old: "\<exists>q<length ?ps. index (?ps ! q) = j \<and> failed (evs @ [e]) q"
    if "p0 < length ps" "j < index (ps ! p0)" for p0
  proof -
    from c that obtain q where "q < length ps" "index (ps ! q) = j" "failed evs q"
      unfolding chain_def by blast
    then show ?thesis by (auto simp: nth_append failed_def intro!: exI[of _ q])
  qed
  show "\<exists>q<length ?ps. index (?ps ! q) = j \<and> failed (evs @ [e]) q"
  proof (cases "p' < length ps")
    case True
    with j show ?thesis using old[of p'] by (simp add: nth_append)
  next
    case False
    with p' have "p' = length ps" by simp
    with j have "j < index (ps ! p) + 1" by simp
    then consider "j = index (ps ! p)" | "j < index (ps ! p)" by linarith
    then show ?thesis
    proof cases
      case 1
      with p f show ?thesis by (auto simp: nth_append intro!: exI[of _ p])
    next
      case 2
      with p show ?thesis using old[of p] by simp
    qed
  qed
qed

lemma chain_deliver: "chain evs (probes (deliver locator_init evs))"
proof (induction evs rule: rev_induct)
  case Nil
  show ?case by (simp add: chain_def deliver_Nil locator_init_eq)
next
  case (snoc e evs)
  show ?case
  proof (cases e)
    case (ProcError p)
    then show ?thesis using snoc chain_mono[OF snoc, of e] chain_grow[OF snoc, of p e]
      by (simp add: deliver_snoc tryNext_probes failed_def)
  next
    case (StdoutData p)
    then show ?thesis using chain_mono[OF snoc, of e]
      by (simp add: deliver_snoc resolve_probes)
  next
    case (StderrData p)
    then show ?thesis using snoc chain_mono[OF snoc, of e] chain_grow[OF snoc, of p e]
      by (simp add: deliver_snoc tryNext_probes failed_def)
  qed
qed

text \<open>A promise resolved with a command was resolved by the first stdout chunk that found it pending.\<close>

lemma first_stdout:
  "result (deliver locator_init evs) = Some (Some c) \<Longrightarrow>
   \<exists>pre p post. evs = pre @ StdoutData p # post \<and> result (deliver locator_init pre) = None
      \<and> p < length (probes (deliver locator_init pre))
      \<and> c = command (probes (deliver locator_init pre) ! p)"
proof (induction evs rule: rev_induct)
  case Nil
  then show ?case by (simp add: deliver_Nil locator_init_eq)
next
  case (snoc e evs)
  show ?case
  proof (cases "result (deliver locator_init evs)")
    case None
    with snoc.prems obtain p where "e = StdoutData p"
      "p < length (probes (deliver locator_init evs))"
      "c = command (probes (deliver locator_init evs) ! p)"
      by (cases e) (auto simp: deliver_snoc tryNext_result resolve_result split: if_splits)
    with None show ?thesis by (intro exI[of _ evs] exI[of _ p] exI[of _ "[]"]) simp
  next
    case (Some r)
    with snoc.prems have "r = Some c"
      using handler_sticky[OF Some, of e] by (simp add: deliver_snoc)
    with Some snoc.IH obtain pre p post where "evs = pre @ StdoutData p # post"
      "result (deliver locator_init pre) = None"
      "p < length (probes (deliver locator_init pre))"
      "c = command (probes (deliver locator_init pre) ! p)"
      by blast
    then show ?thesis by (intro exI[of _ pre] exI[of _ p] exI[of _ "post @ [e]"]) simp
  qed
qed

lemma first_stdout_resolves:
  assumes "evs = pre @ StdoutData p # post" "result (deliver locator_init pre) = None"
    "p < length (probes (deliver locator_init pre))"
  shows "result (deliver locator_init evs) =
           Some (Some (command (probes (deliver locator_init pre) ! p)))"
proof -
  have "result (probe_handler (StdoutData p) (deliver locator_init pre)) =
          Some (Some (command (probes (deliver locator_init pre) ! p)))"
    using assms by (simp add: resolve_result)
  then show ?thesis using assms(1) deliver_sticky
    by (simp add: deliver_append deliver_def)
qed


text \<open>A promise resolved with \<^verbatim>\<open>null\<close> was resolved by the first failure of a probe of the last
  candidate that found it pending.\<close>

lemma first_null:
  "result (deliver locator_init evs) = Some None \<Longrightarrow>
   \<exists>pre e p post. evs = pre @ e # post \<and> (e = ProcError p \<or> e = StderrData p)
      \<and> result (deliver locator_init pre) = None
      \<and> p < length (probes (deliver locator_init pre))
      \<and> index (probes (deliver locator_init pre) ! p) + 1 = length commands"
proof (induction evs rule: rev_induct)
  case Nil
  then show ?case by (simp add: deliver_Nil locator_init_eq)
next
  case (snoc e evs)
  let ?l = "deliver locator_init evs"
  show ?case
  proof (cases "result ?l")
    case None
    have wf: "index (probes ?l ! q) < length commands" if "q < length (probes ?l)" for q
      using probes_wf[of "probes ?l ! q" evs] that by simp
    from None snoc.prems obtain p where p: "e = ProcError p \<or> e = StderrData p"
      "p < length (probes ?l)" "\<not> index (probes ?l ! p) + 1 < length commands"
      by (cases e) (auto simp: deliver_snoc tryNext_result resolve_result split: if_splits)
    with wf[of p] have "index (probes ?l ! p) + 1 = length commands" by simp
    with None p show ?thesis
      by (intro exI[of _ evs] exI[of _ e] exI[of _ p] exI[of _ "[]"]) simp
  next
    case (Some r)
    with snoc.prems have "r = None"
      using handler_sticky[OF Some, of e] by (simp add: deliver_snoc)
    with Some snoc.IH obtain pre e' p post where "evs = pre @ e' # post"
      "e' = ProcError p \<or> e' = StderrData p"
      "result (deliver locator_init pre) = None"
      "p < length (probes (deliver locator_init pre))"
      "index (probes (deliver locator_init pre) ! p) + 1 = length commands"
      by blast
    then show ?thesis
      by (intro exI[of _ pre] exI[of _ e'] exI[of _ p] exI[of _ "post @ [e]"]) simp
  qed
qed

lemma first_null_resolves:
  assumes "evs = pre @ e # post" "e = ProcError p \<or> e = StderrData p"
    "result (deliver locator_init pre) = None"
    "p < length (probes (deliver locator_init pre))"
    "index (probes (deliver locator_init pre) ! p) + 1 = length commands"
  shows "result (deliver locator_init evs) = Some None"
proof -
  have "result (probe_handler e (deliver locator_init pre)) = Some None"
    using assms(2-5) by (auto simp: tryNext_result)
  then show ?thesis using assms(1) deliver_sticky
    by (simp add: deliver_append deliver_def)
qed

lemma failure_spawns_next:
  assumes "p < length (probes (deliver locator_init evs))" "e = ProcError p \<or> e = StderrData p"
  shows "probes (deliver locator_init (evs @ [e])) =
           probes (deliver locator_init evs) @
             (if index (probes (deliver locator_init evs) ! p) + 1 < length commands
              then [\<lparr>index = index (probes (deliver locator_init evs) ! p) + 1,
                     command = commands ! (index (probes (deliver locator_init evs) ! p) + 1)\<rparr>]
              else [])"
  using assms by (auto simp: deliver_snoc tryNext_probes)

text \<open>With one outcome per probe the run is the one the specification describes.\<close>

lemma one_outcome_run:
  assumes "length (probes l) = Suc k" "index (probes l ! k) = i" "i < length commands"
    "command (probes l ! k) = commands ! i" "result l = None"
  shows "result (deliver l (one_outcome_each k xs)) = spec_locate i xs"
  using assms
proof (induction xs arbitrary: l k i)
  case Nil
  then show ?case by (simp add: deliver_Nil)
next
  case (Cons x xs)
  have d: "deliver l (one_outcome_each k (x # xs)) =
             deliver (probe_handler (outcome_event k x) l) (one_outcome_each (Suc k) xs)"
    by (simp add: deliver_def)
  show ?case
  proof (cases "x = WritesStdout")
    case True
    with Cons.prems have "result (probe_handler (outcome_event k x) l) = Some (Some (commands ! i))"
      by (simp add: resolve_result)
    then show ?thesis using True deliver_sticky unfolding d by simp
  next
    case False
    then have ev: "outcome_event k x = ProcError k \<or> outcome_event k x = StderrData k"
      by (cases x) simp_all
    have sp: "spec_locate i (x # xs) =
        (if i + 1 < length commands then spec_locate (i + 1) xs else Some None)"
      using False by (cases x) simp_all
    show ?thesis
    proof (cases "i + 1 < length commands")
      case True
      let ?l' = "probe_handler (outcome_event k x) l"
      from ev Cons.prems True have l': "probes ?l' = probes l @ [\<lparr>index = i + 1, command = commands ! (i + 1)\<rparr>]"
        "result ?l' = None"
        by (auto simp: tryNext_probes tryNext_result)
      with Cons.prems have "length (probes ?l') = Suc (Suc k)" "index (probes ?l' ! Suc k) = i + 1"
        "command (probes ?l' ! Suc k) = commands ! (i + 1)"
        by (simp_all add: nth_append)
      from Cons.IH[OF this(1) this(2) True this(3) l'(2)] show ?thesis
        unfolding d sp using True by simp
    next
      case False
      with ev Cons.prems have "result (probe_handler (outcome_event k x) l) = Some None"
        by (auto simp: tryNext_result)
      then show ?thesis using False deliver_sticky unfolding d sp by simp
    qed
  qed
qed

lemma one_outcome_locate:
  "result (findPythonExecutable (one_outcome_each 0 xs)) = spec_locate 0 xs"
  unfolding findPythonExecutable_def
  by (rule one_outcome_run) (simp_all add: locator_init_eq commands_def)

text \<open>
  Claim C10. The candidates are the fixed list \<open>python\<close>, \<open>python\<close>, \<open>py\<close>: the name
  \<open>python\<close> stands twice in it, the first probe of every call runs \<open>python\<close>, and
  whatever the probes deliver, every probe that is ever spawned runs the command the list
  has at its index, so one of \<open>python\<close> and \<open>py\<close> and never \<open>python3\<close>.
\<close>

theorem candidates_fixed:
  "commands = [''python'', ''python'', ''py'']
   \<and> count_list commands ''python'' = 2
   \<and> map command (probes (findPythonExecutable [])) = [''python'']
   \<and> (\<forall>evs. \<forall>pr \<in> set (probes (findPythonExecutable evs)).
          index pr < 3 \<and> command pr = commands ! index pr \<and> command pr \<in> {''python'', ''py''})
   \<and> (\<forall>evs. ''python3'' \<notin> command ` set (probes (findPythonExecutable evs)))"
proof -
  have wf: "index pr < 3 \<and> command pr = commands ! index pr \<and> command pr \<in> {''python'', ''py''}"
    if "pr \<in> set (probes (findPythonExecutable evs))" for pr evs
  proof -
    from that have a: "index pr < length commands" and b: "command pr = commands ! index pr"
      using probes_wf[of pr evs] by (simp_all add: findPythonExecutable_def)
    from a have "index pr = 0 \<or> index pr = 1 \<or> index pr = 2"
      by (auto simp: commands_def)
    with b have "command pr \<in> {''python'', ''py''}" by (auto simp: commands_def)
    with a b show ?thesis by (simp add: commands_def)
  qed
  have no3: "''python3'' \<notin> command ` set (probes (findPythonExecutable evs))" for evs
  proof
    assume "''python3'' \<in> command ` set (probes (findPythonExecutable evs))"
    then obtain pr where "pr \<in> set (probes (findPythonExecutable evs))" "command pr = ''python3''"
      by auto
    with wf[of pr evs] show False by simp
  qed
  have c1: "commands = [''python'', ''python'', ''py'']" by (simp add: commands_def)
  have c2: "count_list commands ''python'' = 2" by (simp add: commands_def)
  have c3: "map command (probes (findPythonExecutable [])) = [''python'']"
    by (simp add: findPythonExecutable_def deliver_Nil locator_init_eq)
  from c1 c2 c3 wf no3 show ?thesis by blast
qed

text \<open>
  The first candidate writes to stderr and the second fails to spawn: the three probes run
  \<open>python\<close>, \<open>python\<close> again, and \<open>py\<close>.
\<close>

theorem candidates_fixed_witness:
  "map command (probes (findPythonExecutable [StderrData 0, ProcError 1])) = [''python'', ''python'', ''py'']
   \<and> command (probes (findPythonExecutable [StderrData 0, ProcError 1]) ! 1) \<in> {''python'', ''py''}"
proof -
  have m: "map command (probes (findPythonExecutable [StderrData 0, ProcError 1])) = [''python'', ''python'', ''py'']"
    by (simp add: findPythonExecutable_def deliver_def locator_init_eq tryNext_def commands_def)
  have "probes (findPythonExecutable [StderrData 0, ProcError 1]) ! 1 \<in> set (probes (findPythonExecutable [StderrData 0, ProcError 1]))"
    by (simp add: findPythonExecutable_def deliver_def locator_init_eq tryNext_def commands_def)
  with candidates_fixed have "command (probes (findPythonExecutable [StderrData 0, ProcError 1]) ! 1) \<in> {''python'', ''py''}"
    by blast
  with m show ?thesis by simp
qed

text \<open>
  Claim C1, as stated, fails. Probe 0 (of candidate 0) writes to stderr, which spawns probe
  1 for candidate 1 and leaves the promise pending; probe 0 then writes to stdout and the
  promise resolves with its command, although no probe has delivered stdout without stderr.
\<close>

theorem findPythonExecutable_accepts_noisy_probe:
  "result (findPythonExecutable [StderrData 0]) = None
   \<and> result (findPythonExecutable [StderrData 0, StdoutData 0]) = Some (Some ''python'')
   \<and> map index (probes (findPythonExecutable [StderrData 0, StdoutData 0])) = [0, 1]
   \<and> \<not> spec_clean_probe [StderrData 0, StdoutData 0] 0
   \<and> \<not> spec_clean_probe [StderrData 0, StdoutData 0] 1"
  by (simp add: findPythonExecutable_def deliver_def locator_init_eq tryNext_def commands_def resolve_def spec_clean_probe_def)

text \<open>
  Claim C1, amended. The first probe runs candidate 0. A spawn error or a stderr chunk of a
  probe makes the next candidate of the list be probed, or, from a probe of the last
  candidate, resolves the pending promise with \<^verbatim>\<open>null\<close>. When every probe delivers one
  outcome the promise resolves with the first candidate whose probe writes to stdout, never
  a later one, and with \<^verbatim>\<open>null\<close> when all have failed. In general it resolves with a
  command exactly when some probe delivers stdout data while the promise is pending, and
  with the command of the first such probe, whether or not that probe wrote to stderr
  before: the handlers of a probe that failed stay registered. For every probe spawned, each
  candidate earlier in the list than its own has had a probe that reported a spawn error or
  wrote to stderr. Once settled, the result does not change.
\<close>

theorem findPythonExecutable_first_stdout:
  "(result (findPythonExecutable evs) = Some (Some c) \<longleftrightarrow>
      (\<exists>pre p post. evs = pre @ StdoutData p # post
         \<and> result (findPythonExecutable pre) = None
         \<and> p < length (probes (findPythonExecutable pre))
         \<and> c = command (probes (findPythonExecutable pre) ! p)))
   \<and> (\<forall>pre p j. p < length (probes (findPythonExecutable pre)) \<and> j < index (probes (findPythonExecutable pre) ! p)
         \<longrightarrow> (\<exists>q < length (probes (findPythonExecutable pre)).
                index (probes (findPythonExecutable pre) ! q) = j \<and> failed pre q))
   \<and> (\<forall>more. result (findPythonExecutable evs) \<noteq> None
         \<longrightarrow> result (findPythonExecutable (evs @ more)) = result (findPythonExecutable evs))
   \<and> probes (findPythonExecutable []) = [\<lparr>index = 0, command = commands ! 0\<rparr>]
   \<and> result (findPythonExecutable []) = None
   \<and> (\<forall>p e. p < length (probes (findPythonExecutable evs)) \<and> (e = ProcError p \<or> e = StderrData p)
         \<longrightarrow> probes (findPythonExecutable (evs @ [e])) =
               probes (findPythonExecutable evs) @
                 (if index (probes (findPythonExecutable evs) ! p) + 1 < length commands
                  then [\<lparr>index = index (probes (findPythonExecutable evs) ! p) + 1,
                         command = commands ! (index (probes (findPythonExecutable evs) ! p) + 1)\<rparr>]
                  else []))
   \<and> (result (findPythonExecutable evs) = Some None \<longleftrightarrow>
        (\<exists>pre e p post. evs = pre @ e # post \<and> (e = ProcError p \<or> e = StderrData p)
           \<and> result (findPythonExecutable pre) = None
           \<and> p < length (probes (findPythonExecutable pre))
           \<and> index (probes (findPythonExecutable pre) ! p) + 1 = length commands))
   \<and> (\<forall>xs. result (findPythonExecutable (one_outcome_each 0 xs)) = spec_locate 0 xs)"
proof (intro conjI allI impI)
  show "result (findPythonExecutable evs) = Some (Some c) \<longleftrightarrow>
      (\<exists>pre p post. evs = pre @ StdoutData p # post
         \<and> result (findPythonExecutable pre) = None
         \<and> p < length (probes (findPythonExecutable pre))
         \<and> c = command (probes (findPythonExecutable pre) ! p))"
    unfolding findPythonExecutable_def
    using first_stdout[of evs c] first_stdout_resolves[of evs] by blast
next
  fix pre p j
  assume "p < length (probes (findPythonExecutable pre)) \<and> j < index (probes (findPythonExecutable pre) ! p)"
  then show "\<exists>q < length (probes (findPythonExecutable pre)).
                index (probes (findPythonExecutable pre) ! q) = j \<and> failed pre q"
    using chain_deliver[of pre] unfolding chain_def findPythonExecutable_def by blast
next
  fix more
  assume "result (findPythonExecutable evs) \<noteq> None"
  then obtain r where "result (deliver locator_init evs) = Some r"
    by (auto simp: findPythonExecutable_def)
  then show "result (findPythonExecutable (evs @ more)) = result (findPythonExecutable evs)"
    using deliver_sticky[of "deliver locator_init evs" r more]
    by (simp add: findPythonExecutable_def deliver_append)
next
  show "probes (findPythonExecutable []) = [\<lparr>index = 0, command = commands ! 0\<rparr>]"
    by (simp add: findPythonExecutable_def deliver_Nil locator_init_eq commands_def)
  show "result (findPythonExecutable []) = None"
    by (simp add: findPythonExecutable_def deliver_Nil locator_init_eq)
next
  fix p e
  assume "p < length (probes (findPythonExecutable evs)) \<and> (e = ProcError p \<or> e = StderrData p)"
  then show "probes (findPythonExecutable (evs @ [e])) =
               probes (findPythonExecutable evs) @
                 (if index (probes (findPythonExecutable evs) ! p) + 1 < length commands
                  then [\<lparr>index = index (probes (findPythonExecutable evs) ! p) + 1,
                         command = commands ! (index (probes (findPythonExecutable evs) ! p) + 1)\<rparr>]
                  else [])"
    unfolding findPythonExecutable_def using failure_spawns_next[of p evs e] by blast
next
  show "result (findPythonExecutable evs) = Some None \<longleftrightarrow>
        (\<exists>pre e p post. evs = pre @ e # post \<and> (e = ProcError p \<or> e = StderrData p)
           \<and> result (findPythonExecutable pre) = None
           \<and> p < length (probes (findPythonExecutable pre))
           \<and> index (probes (findPythonExecutable pre) ! p) + 1 = length commands)"
    unfolding findPythonExecutable_def
    using first_null[of evs] first_null_resolves[of evs] by blast
next
  fix xs
  show "result (findPythonExecutable (one_outcome_each 0 xs)) = spec_locate 0 xs"
    by (rule one_outcome_locate)
qed

text \<open>
  The first candidate fails to spawn and the second prints its version: the promise
  resolves with the second candidate and stays so when more events arrive. Two failures
  and then a version give \<open>py\<close>, three failures give \<^verbatim>\<open>null\<close>, and a stderr chunk of the
  first probe makes \<open>python\<close> be probed again.
\<close>

theorem findPythonExecutable_first_stdout_witness:
  "result (findPythonExecutable [ProcError 0, StdoutData 1]) = Some (Some ''python'')
   \<and> result (findPythonExecutable [ProcError 0, StdoutData 1, StdoutData 0, StderrData 1]) = Some (Some ''python'')
   \<and> failed [ProcError 0] 0
   \<and> result (findPythonExecutable [ProcError 0, StderrData 1, StdoutData 2]) = Some (Some ''py'')
   \<and> result (findPythonExecutable [ProcError 0, StderrData 1, ProcError 2]) = Some None
   \<and> map command (probes (findPythonExecutable [StderrData 0])) = [''python'', ''python'']"
proof -
  note th = findPythonExecutable_first_stdout
  have r: "result (findPythonExecutable [ProcError 0, StdoutData 1]) = Some (Some ''python'')"
    by (simp add: findPythonExecutable_def deliver_def locator_init_eq tryNext_def commands_def resolve_def)
  then have "result (findPythonExecutable [ProcError 0, StdoutData 1]) \<noteq> None" by simp
  with th[of "[ProcError 0, StdoutData 1]" "''python''"]
  have a: "result (findPythonExecutable ([ProcError 0, StdoutData 1] @ [StdoutData 0, StderrData 1])) =
          result (findPythonExecutable [ProcError 0, StdoutData 1])"
    by blast
  from th[of "[]" "''python''"]
  have one: "result (findPythonExecutable (one_outcome_each 0 xs)) = spec_locate 0 xs" for xs
    by blast
  have b: "result (findPythonExecutable [ProcError 0, StderrData 1, StdoutData 2]) = Some (Some ''py'')"
    using one[of "[SpawnFails, WritesStderr, WritesStdout]"]
    by (simp add: commands_def numeral_2_eq_2)
  have c: "result (findPythonExecutable [ProcError 0, StderrData 1, ProcError 2]) = Some None"
    using one[of "[SpawnFails, WritesStderr, SpawnFails]"]
    by (simp add: commands_def numeral_2_eq_2)
  have p0: "(0::nat) < length (probes (findPythonExecutable []))"
    "index (probes (findPythonExecutable []) ! 0) = 0"
    "probes (findPythonExecutable []) = [\<lparr>index = 0, command = ''python''\<rparr>]"
    by (simp_all add: findPythonExecutable_def deliver_Nil locator_init_eq)
  from th[of "[]" "''python''"] p0(1)
  have "probes (findPythonExecutable ([] @ [StderrData 0])) =
               probes (findPythonExecutable []) @
                 (if index (probes (findPythonExecutable []) ! 0) + 1 < length commands
                  then [\<lparr>index = index (probes (findPythonExecutable []) ! 0) + 1,
                         command = commands ! (index (probes (findPythonExecutable []) ! 0) + 1)\<rparr>]
                  else [])"
    by blast
  then have d: "map command (probes (findPythonExecutable [StderrData 0])) = [''python'', ''python'']"
    unfolding p0(2) p0(3) by (simp add: commands_def)
  from r a b c d show ?thesis by (simp add: failed_def)
qed

section \<open>Properties of the supervisor\<close>

text \<open>The equations that evaluate a run on given events.\<close>

lemmas trace_defs = run_def dev_env_def host_init_def join_slash_def
  restartPythonBackend_def stopPythonBackend_def setTimeout_def startPythonBackend_def
  locate_then_def locator_init_eq tryNext_def commands_def probe_step_def resolve_def
  startPythonBackend_then_def getResourcePath_def send_def on_close_def on_message_def
  on_stderr_def close_argument_def Let_def

lemma run_Nil: "run e h [] = h"
  by (simp add: run_def)

lemma run_Cons: "run e h (ev # evs) = run e (step e ev h) evs"
  by (simp add: run_def)

lemma run_snoc: "run e h (evs @ [ev]) = step e ev (run e h evs)"
  by (simp add: run_def)

lemma run_append: "run e h (xs @ ys) = run e (run e h xs) ys"
  by (simp add: run_def)

subsection \<open>Every message the main process sends is one of the five lifecycle messages\<close>

lemma stop_sent_ok:
  "list_all lifecycle_message (sent h) \<Longrightarrow> list_all lifecycle_message (sent (stopPythonBackend h))"
  by (simp add: stopPythonBackend_def send_def Let_def split: option.splits)

lemma start_then_sent_ok:
  "list_all lifecycle_message (sent h) \<Longrightarrow>
   list_all lifecycle_message (sent (startPythonBackend_then e r h))"
  by (simp add: startPythonBackend_then_def send_def showErrorBox_def Let_def
        split: option.splits)

lemma install_then_sent: "sent (installPythonDependencies_then r h) = sent h"
  by (simp add: installPythonDependencies_then_def showErrorBox_def)

lemma continue_sent_ok:
  "list_all lifecycle_message (sent h) \<Longrightarrow> list_all lifecycle_message (sent (continue e c r h))"
  by (cases c) (simp_all add: start_then_sent_ok install_then_sent)

lemma probe_step_sent_ok:
  "list_all lifecycle_message (sent h) \<Longrightarrow> list_all lifecycle_message (sent (probe_step e k ev h))"
  by (simp add: probe_step_def Let_def continue_sent_ok split: option.splits)

lemma timeout_sent_ok:
  "list_all lifecycle_message (sent h) \<Longrightarrow> list_all lifecycle_message (sent (timeout cb h))"
  by (cases cb) (simp_all add: startPythonBackend_def locate_then_def send_def Let_def)

lemma step_sent_ok:
  "list_all lifecycle_message (sent h) \<Longrightarrow> list_all lifecycle_message (sent (step e ev h))"
proof (cases ev)
  case Timeout
  then show "list_all lifecycle_message (sent h) \<Longrightarrow> ?thesis"
    by (cases "timers h") (simp_all add: timeout_sent_ok)
qed (simp_all add: stop_sent_ok probe_step_sent_ok setTimeout_def restartPythonBackend_def
       installPythonDependencies_def locate_then_def on_message_def on_stderr_def on_close_def
       send_def Let_def install_stdout_def install_stderr_def install_close_def
       showMessageBox_def showErrorBox_def)

lemma run_sent_ok: "list_all lifecycle_message (sent (run e host_init evs))"
  by (induction evs rule: rev_induct) (simp_all add: run_Nil run_snoc step_sent_ok host_init_def)

lemma lifecycle_message_channel: "lifecycle_message m \<Longrightarrow> fst m \<in> set lifecycle_channels"
  by (cases m rule: lifecycle_message.cases) (auto simp: lifecycle_channels_def)

subsection \<open>Starting\<close>

text \<open>
  Claim C2, as stated, fails. The application starts and, within the second before the
  delayed start, the user picks Restart Monitor. Both timers fire and both locator runs find
  \<open>python\<close>. When the second callback runs the handle holds backend 0; the callback creates
  backend 1 all the same and overwrites the handle. Backend 0 was never sent a signal: two
  backends are live.
\<close>

theorem start_while_running_spawns_second:
  "pythonProcess (run dev_env host_init
      [AppReady, MenuRestart, Timeout, Timeout, Probe 0 (StdoutData 0)]) = Some 0
   \<and> live (run dev_env host_init
      [AppReady, MenuRestart, Timeout, Timeout, Probe 0 (StdoutData 0)]) = [0]
   \<and> pythonProcess (run dev_env host_init
      [AppReady, MenuRestart, Timeout, Timeout, Probe 0 (StdoutData 0), Probe 1 (StdoutData 0)]) = Some 1
   \<and> live (run dev_env host_init
      [AppReady, MenuRestart, Timeout, Timeout, Probe 0 (StdoutData 0), Probe 1 (StdoutData 0)]) = [0, 1]
   \<and> killed (run dev_env host_init
      [AppReady, MenuRestart, Timeout, Timeout, Probe 0 (StdoutData 0), Probe 1 (StdoutData 0)]) = []"
  by (simp add: trace_defs)

text \<open>
  Claim C2, amended. \<^verbatim>\<open>startPythonBackend\<close> does not look at the handle: every call
  begins a locator run. When the locator found a command, the script is on disk and the
  constructor does not throw, the callback creates exactly one new backend and points the
  handle at it, next to whatever was live before and without a signal to anything; so
  exactly one backend is live afterwards if and only if none was live before. In every other
  case it creates no backend and leaves the handle as it was.
\<close>

theorem startPythonBackend_then_spawns:
  "length (locators (startPythonBackend h)) = length (locators h) + 1
   \<and> (can_spawn e pythonCommand \<longrightarrow>
        pythonProcess (startPythonBackend_then e pythonCommand h) = Some (shells h)
        \<and> live (startPythonBackend_then e pythonCommand h) = live h @ [shells h]
        \<and> shells (startPythonBackend_then e pythonCommand h) = shells h + 1
        \<and> killed (startPythonBackend_then e pythonCommand h) = killed h
        \<and> (length (live (startPythonBackend_then e pythonCommand h)) = 1 \<longleftrightarrow> live h = []))
   \<and> (\<not> can_spawn e pythonCommand \<longrightarrow>
        pythonProcess (startPythonBackend_then e pythonCommand h) = pythonProcess h
        \<and> live (startPythonBackend_then e pythonCommand h) = live h
        \<and> shells (startPythonBackend_then e pythonCommand h) = shells h)"
  by (auto simp: startPythonBackend_def locate_then_def can_spawn_def script_path_def
        startPythonBackend_then_def send_def showErrorBox_def Let_def split: option.splits)

theorem startPythonBackend_then_spawns_witness:
  "can_spawn dev_env (Some ''python'')
   \<and> pythonProcess (startPythonBackend_then dev_env (Some ''python'') host_init) = Some 0
   \<and> live (startPythonBackend_then dev_env (Some ''python'') host_init) = [0]
   \<and> \<not> can_spawn dev_env None
   \<and> live (startPythonBackend_then dev_env None host_init) = []"
proof -
  have a: "can_spawn dev_env (Some ''python'')"
    by (simp add: can_spawn_def script_path_def dev_env_def getResourcePath_def join_slash_def)
  have b: "\<not> can_spawn dev_env None" by (simp add: can_spawn_def)
  from a b startPythonBackend_then_spawns[of host_init dev_env "Some ''python''"]
    startPythonBackend_then_spawns[of host_init dev_env None]
  show ?thesis by (simp add: host_init_def)
qed

text \<open>
  Claim C6, as stated, fails. The script is missing and the window is closed while the
  locator is still probing: the callback finds no window and sends nothing.
\<close>

theorem missing_script_without_window:
  "\<not> existsSync no_script_env (script_path no_script_env)
   \<and> result (fst (locators (run no_script_env host_init
        [AppReady, Timeout, WindowClosed, Probe 0 (StdoutData 0)]) ! 0)) = Some (Some ''python'')
   \<and> sent (run no_script_env host_init
        [AppReady, Timeout, WindowClosed, Probe 0 (StdoutData 0)]) = []"
  by (simp add: trace_defs no_script_env_def script_path_def)

text \<open>
  Claim C6, amended. When the script path does not exist, the start callback sends exactly
  one \<open>python-error\<close> message if there is a window and nothing if there is none; the
  handle stays as it was (cleared if it was cleared) and no backend is created. When the
  locator found a command, the message names the path and nothing else changes at all.
\<close>

theorem missing_script:
  assumes "\<not> existsSync e (script_path e)"
  shows "(\<exists>msg. sent (startPythonBackend_then e pythonCommand h) =
            sent h @ (if mainWindow h then [(''python-error'', Text msg)] else []))
   \<and> pythonProcess (startPythonBackend_then e pythonCommand h) = pythonProcess h
   \<and> live (startPythonBackend_then e pythonCommand h) = live h
   \<and> shells (startPythonBackend_then e pythonCommand h) = shells h
   \<and> (pythonCommand \<noteq> None \<and> pythonCommand \<noteq> Some [] \<longrightarrow>
        startPythonBackend_then e pythonCommand h =
          h\<lparr>sent := sent h @ (if mainWindow h
               then [(''python-error'', Text (''Python script not found: '' @ script_path e))]
               else [])\<rparr>)"
proof -
  have found: "startPythonBackend_then e pythonCommand h =
          h\<lparr>sent := sent h @ (if mainWindow h
               then [(''python-error'', Text (''Python script not found: '' @ script_path e))]
               else [])\<rparr>"
    if "pythonCommand \<noteq> None \<and> pythonCommand \<noteq> Some []"
    using that assms by (auto simp: startPythonBackend_then_def script_path_def send_def Let_def)
  have missing: "startPythonBackend_then e pythonCommand h =
          (if mainWindow h
           then h\<lparr>sent := sent h @ [(''python-error'', Text python_not_found)],
                  dialogs := dialogs h @ [ErrorBox ''Python Not Found'' python_not_found_detail]\<rparr>
           else h)"
    if "\<not> (pythonCommand \<noteq> None \<and> pythonCommand \<noteq> Some [])"
    using that by (auto simp: startPythonBackend_then_def send_def showErrorBox_def)
  show ?thesis
  proof (cases "pythonCommand \<noteq> None \<and> pythonCommand \<noteq> Some []")
    case True
    from found[OF True] show ?thesis by auto
  next
    case False
    from missing[OF False] False show ?thesis by auto
  qed
qed

theorem missing_script_witness:
  "\<not> existsSync no_script_env (script_path no_script_env)
   \<and> sent (startPythonBackend_then no_script_env (Some ''python'') (host_init\<lparr>mainWindow := True\<rparr>)) =
        [(''python-error'', Text ''Python script not found: /app/src/app.py'')]
   \<and> pythonProcess (startPythonBackend_then no_script_env (Some ''python'')
        (host_init\<lparr>mainWindow := True\<rparr>)) = None
   \<and> live (startPythonBackend_then no_script_env (Some ''python'')
        (host_init\<lparr>mainWindow := True\<rparr>)) = []"
proof -
  have a: "\<not> existsSync no_script_env (script_path no_script_env)"
    by (simp add: no_script_env_def dev_env_def)
  have p: "script_path no_script_env = ''/app/src/app.py''"
    by (simp add: script_path_def no_script_env_def dev_env_def getResourcePath_def join_slash_def)
  from missing_script[OF a, of "Some ''python''" "host_init\<lparr>mainWindow := True\<rparr>"] a p
  show ?thesis by (simp add: host_init_def)
qed

subsection \<open>The observers of a backend\<close>

text \<open>
  Claim C3 is not met by the code. The claim asks for one \<open>python-closed\<close> event that
  carries the exit code and is flagged unexpected exactly when the code is not 0. The handler
  is written to receive the code, but it is called without one: a backend that exits with
  status 137 and a backend that exits with status 0 are each reported by one
  \<open>python-closed\<close> message that carries no code and says \<open>unexpected = true\<close>.
\<close>

theorem close_event_carries_no_code:
  "live (run dev_env host_init [AppReady, Timeout, Probe 0 (StdoutData 0)]) = [0]
   \<and> mainWindow (run dev_env host_init [AppReady, Timeout, Probe 0 (StdoutData 0)])
   \<and> sent (run dev_env host_init
        [AppReady, Timeout, Probe 0 (StdoutData 0), ShellClose 0 (Some 137)]) =
       [(''python-closed'', ClosedInfo None True)]
   \<and> sent (run dev_env host_init
        [AppReady, Timeout, Probe 0 (StdoutData 0), ShellClose 0 (Some 0)]) =
       [(''python-closed'', ClosedInfo None True)]"
  by (simp add: trace_defs)

text \<open>
  Claim C4, as stated, fails. On a system where the application outlives its last window,
  the window is closed, which stops the backend, and Restart Monitor is then picked from the
  menu. The new backend holds the handle and is live, there is no window, and the line and
  the stderr chunk it writes are delivered nowhere.
\<close>

theorem output_lost_without_window:
  "pythonProcess (run dev_env host_init
      [AppReady, Timeout, Probe 0 (StdoutData 0), WindowClosed, WindowAllClosed, ShellClose 0 None,
       MenuRestart, Timeout, Probe 1 (StdoutData 0)]) = Some 1
   \<and> live (run dev_env host_init
      [AppReady, Timeout, Probe 0 (StdoutData 0), WindowClosed, WindowAllClosed, ShellClose 0 None,
       MenuRestart, Timeout, Probe 1 (StdoutData 0)]) = [1]
   \<and> sent (run dev_env host_init
      [AppReady, Timeout, Probe 0 (StdoutData 0), WindowClosed, WindowAllClosed, ShellClose 0 None,
       MenuRestart, Timeout, Probe 1 (StdoutData 0), ShellMessage 1 ''up'', ShellStderr 1 ''warn'']) = []
   \<and> pythonProcess (run dev_env host_init
      [AppReady, Timeout, Probe 0 (StdoutData 0), WindowClosed, WindowAllClosed, ShellClose 0 None,
       MenuRestart, Timeout, Probe 1 (StdoutData 0), ShellMessage 1 ''up'', ShellStderr 1 ''warn'']) = Some 1"
  by (simp add: trace_defs)

lemma run_lines:
  "p \<in> set (live h) \<Longrightarrow>
   run e h (map (shell_event p) ls) =
     h\<lparr>sent := sent h @ (if mainWindow h then map relayed ls else [])\<rparr>"
proof (induction ls arbitrary: h)
  case Nil
  then show ?case by (simp add: run_Nil)
next
  case (Cons x ls)
  then show ?case
    by (cases x) (simp_all add: run_Cons on_message_def on_stderr_def send_def)
qed

text \<open>
  Claim C4, amended. For a live backend, while there is a window, every line, every stderr
  chunk and the exit are each relayed as exactly one event, in order: nothing twice, nothing
  lost; without a window none of them is relayed. The exit clears the handle.
  \<^verbatim>\<open>stopPythonBackend\<close> sends one \<open>python-stopped\<close> when it finds a handle and a
  window, and the restart timer sends one \<open>python-restarted\<close> when it finds a window.
\<close>

theorem observers_relay:
  "(p \<in> set (live h) \<longrightarrow>
      sent (run e h (map (shell_event p) ls)) =
        sent h @ (if mainWindow h then map relayed ls else [])
      \<and> sent (run e h (map (shell_event p) ls @ [ShellClose p status])) =
        sent h @ (if mainWindow h
                  then map relayed ls @ [(''python-closed'', ClosedInfo None True)] else [])
      \<and> p \<notin> set (live (run e h (map (shell_event p) ls @ [ShellClose p status])))
      \<and> pythonProcess (run e h (map (shell_event p) ls @ [ShellClose p status])) = None)
   \<and> sent (stopPythonBackend h) =
       sent h @ (if pythonProcess h \<noteq> None \<and> mainWindow h
                 then [(''python-stopped'', NoPayload)] else [])
   \<and> sent (timeout RestartCallback h) =
       sent h @ (if mainWindow h then [(''python-restarted'', NoPayload)] else [])"
proof (intro conjI impI)
  assume p: "p \<in> set (live h)"
  show "sent (run e h (map (shell_event p) ls)) =
        sent h @ (if mainWindow h then map relayed ls else [])"
    by (simp add: run_lines[OF p])
  have c: "run e h (map (shell_event p) ls @ [ShellClose p status]) =
      step e (ShellClose p status) (h\<lparr>sent := sent h @ (if mainWindow h then map relayed ls else [])\<rparr>)"
    by (simp add: run_snoc run_lines[OF p])
  show "sent (run e h (map (shell_event p) ls @ [ShellClose p status])) =
        sent h @ (if mainWindow h
                  then map relayed ls @ [(''python-closed'', ClosedInfo None True)] else [])"
    unfolding c using p by (simp add: on_close_def close_argument_def send_def Let_def)
  show "p \<notin> set (live (run e h (map (shell_event p) ls @ [ShellClose p status])))"
    unfolding c using p by (simp add: on_close_def close_argument_def send_def Let_def)
  show "pythonProcess (run e h (map (shell_event p) ls @ [ShellClose p status])) = None"
    unfolding c using p by (simp add: on_close_def close_argument_def send_def Let_def)
qed (simp_all add: stopPythonBackend_def timeout.simps startPythonBackend_def locate_then_def
       send_def Let_def split: option.splits)

theorem observers_relay_witness:
  "0 \<in> set (live (run dev_env host_init [AppReady, Timeout, Probe 0 (StdoutData 0)]))
   \<and> sent (run dev_env (run dev_env host_init [AppReady, Timeout, Probe 0 (StdoutData 0)])
        [ShellMessage 0 ''a'', ShellStderr 0 ''b'', ShellMessage 0 ''c'', ShellClose 0 (Some 3)]) =
       [(''python-output'', Text ''a''), (''python-error'', Text ''b''),
        (''python-output'', Text ''c''), (''python-closed'', ClosedInfo None True)]"
proof -
  let ?h = "run dev_env host_init [AppReady, Timeout, Probe 0 (StdoutData 0)]"
  have a: "0 \<in> set (live ?h)" "mainWindow ?h" "sent ?h = []"
    by (simp_all add: trace_defs)
  have m: "map (shell_event 0) [Message ''a'', Stderr ''b'', Message ''c''] @ [ShellClose 0 (Some 3)] =
      [ShellMessage 0 ''a'', ShellStderr 0 ''b'', ShellMessage 0 ''c'', ShellClose 0 (Some 3)]"
    by simp
  from observers_relay[of 0 ?h dev_env "[Message ''a'', Stderr ''b'', Message ''c'']" "Some 3"] a
  have "sent (run dev_env ?h (map (shell_event 0) [Message ''a'', Stderr ''b'', Message ''c''] @
          [ShellClose 0 (Some 3)])) =
       [(''python-output'', Text ''a''), (''python-error'', Text ''b''),
        (''python-output'', Text ''c''), (''python-closed'', ClosedInfo None True)]"
    by simp
  with a(1) show ?thesis unfolding m by simp
qed

subsection \<open>Stopping and restarting\<close>

text \<open>
  Claim C9, as stated, fails. Closing the window clears \<open>mainWindow\<close>; the
  \<^verbatim>\<open>window-all-closed\<close> handler then stops the live backend: the signal is sent and the
  handle cleared, but no \<open>python-stopped\<close> message is sent.
\<close>

theorem stop_after_window_closed:
  "pythonProcess (run dev_env host_init
      [AppReady, Timeout, Probe 0 (StdoutData 0), WindowClosed]) = Some 0
   \<and> pythonProcess (run dev_env host_init
      [AppReady, Timeout, Probe 0 (StdoutData 0), WindowClosed, WindowAllClosed]) = None
   \<and> killed (run dev_env host_init
      [AppReady, Timeout, Probe 0 (StdoutData 0), WindowClosed, WindowAllClosed]) = [0]
   \<and> sent (run dev_env host_init
      [AppReady, Timeout, Probe 0 (StdoutData 0), WindowClosed, WindowAllClosed]) = []"
  by (simp add: trace_defs)

text \<open>
  Claim C9, amended. Without a handle \<^verbatim>\<open>stopPythonBackend\<close> changes nothing: no event,
  no error. With a handle it sends the termination signal to that backend, clears the handle
  and sends one \<open>python-stopped\<close> message if there is a window, none if there is not;
  nothing else changes, and it does not wait for the backend to exit. A second call right
  after the first changes nothing.
\<close>

theorem stopPythonBackend_effect:
  "(pythonProcess h = None \<longrightarrow> stopPythonBackend h = h)
   \<and> (\<forall>p. pythonProcess h = Some p \<longrightarrow>
         stopPythonBackend h =
           h\<lparr>pythonProcess := None, killed := killed h @ [p],
             sent := sent h @ (if mainWindow h then [(''python-stopped'', NoPayload)] else [])\<rparr>)
   \<and> stopPythonBackend (stopPythonBackend h) = stopPythonBackend h"
proof (cases "pythonProcess h")
  case None
  then have "stopPythonBackend h = h" by (simp add: stopPythonBackend_def)
  with None show ?thesis by simp
next
  case (Some p)
  then have eq: "stopPythonBackend h =
      h\<lparr>pythonProcess := None, killed := killed h @ [p],
        sent := sent h @ (if mainWindow h then [(''python-stopped'', NoPayload)] else [])\<rparr>"
    by (simp add: stopPythonBackend_def send_def Let_def)
  then have "pythonProcess (stopPythonBackend h) = None" by simp
  then have "stopPythonBackend (stopPythonBackend h) = stopPythonBackend h"
    by (simp add: stopPythonBackend_def)
  with Some eq show ?thesis by simp
qed

theorem stopPythonBackend_effect_witness:
  "stopPythonBackend host_init = host_init
   \<and> sent (stopPythonBackend (host_init\<lparr>mainWindow := True, pythonProcess := Some 0, live := [0]\<rparr>)) =
       [(''python-stopped'', NoPayload)]
   \<and> killed (stopPythonBackend (host_init\<lparr>mainWindow := True, pythonProcess := Some 0, live := [0]\<rparr>)) = [0]
   \<and> live (stopPythonBackend (host_init\<lparr>mainWindow := True, pythonProcess := Some 0, live := [0]\<rparr>)) = [0]"
proof -
  have "pythonProcess host_init = None" by (simp add: host_init_def)
  with stopPythonBackend_effect[of host_init] have a: "stopPythonBackend host_init = host_init"
    by blast
  have "pythonProcess (host_init\<lparr>mainWindow := True, pythonProcess := Some 0, live := [0]\<rparr>) = Some 0"
    by simp
  with stopPythonBackend_effect[of "host_init\<lparr>mainWindow := True, pythonProcess := Some 0, live := [0]\<rparr>"]
  have "stopPythonBackend (host_init\<lparr>mainWindow := True, pythonProcess := Some 0, live := [0]\<rparr>) =
          (host_init\<lparr>mainWindow := True, pythonProcess := Some 0, live := [0]\<rparr>)
            \<lparr>pythonProcess := None,
             killed := killed (host_init\<lparr>mainWindow := True, pythonProcess := Some 0, live := [0]\<rparr>) @ [0],
             sent := sent (host_init\<lparr>mainWindow := True, pythonProcess := Some 0, live := [0]\<rparr>) @
               (if mainWindow (host_init\<lparr>mainWindow := True, pythonProcess := Some 0, live := [0]\<rparr>)
                then [(''python-stopped'', NoPayload)] else [])\<rparr>"
    by blast
  with a show ?thesis by (simp add: host_init_def)
qed

text \<open>
  Claim C5, as stated, fails. First trace: the backend runs and is restarted; a second after
  the signal the new backend is created while the old one has not closed yet. Second trace:
  Restart Monitor is picked twice within the delay and the old backend closes; both timers
  fire, both locator runs succeed, and backends 1 and 2 are live together, neither of them
  signalled.
\<close>

theorem restart_overlap:
  "live (run dev_env host_init
      [AppReady, Timeout, Probe 0 (StdoutData 0), MenuRestart, Timeout, Probe 1 (StdoutData 0)]) = [0, 1]
   \<and> killed (run dev_env host_init
      [AppReady, Timeout, Probe 0 (StdoutData 0), MenuRestart, Timeout, Probe 1 (StdoutData 0)]) = [0]
   \<and> live (run dev_env host_init
      [AppReady, Timeout, Probe 0 (StdoutData 0), MenuRestart, MenuRestart, ShellClose 0 None,
       Timeout, Timeout, Probe 1 (StdoutData 0), Probe 2 (StdoutData 0)]) = [1, 2]
   \<and> killed (run dev_env host_init
      [AppReady, Timeout, Probe 0 (StdoutData 0), MenuRestart, MenuRestart, ShellClose 0 None,
       Timeout, Timeout, Probe 1 (StdoutData 0), Probe 2 (StdoutData 0)]) = [0]"
  by (simp add: trace_defs)

text \<open>
  Claim C5, amended. \<^verbatim>\<open>restartPythonBackend\<close> runs \<^verbatim>\<open>stopPythonBackend\<close> to its end
  (signal sent, handle cleared) and then only sets a timer of 1000 milliseconds: it begins
  no locator run and creates no backend itself. When the timer fires, the start is begun
  (one more locator run) and then \<open>python-restarted\<close> is sent if there is a window, before
  any backend of that start exists. Neither step waits for the old backend to close or
  looks for backends that are live.
\<close>

theorem restartPythonBackend_order:
  "restartPythonBackend h = (stopPythonBackend h)\<lparr>timers := timers h @ [(RestartCallback, 1000)]\<rparr>
   \<and> pythonProcess (restartPythonBackend h) = None
   \<and> locators (restartPythonBackend h) = locators h
   \<and> shells (restartPythonBackend h) = shells h
   \<and> live (restartPythonBackend h) = live h
   \<and> locators (timeout RestartCallback h) = locators h @ [(locator_init, StartContinuation)]
   \<and> sent (timeout RestartCallback h) =
        sent h @ (if mainWindow h then [(''python-restarted'', NoPayload)] else [])
   \<and> shells (timeout RestartCallback h) = shells h
   \<and> live (timeout RestartCallback h) = live h
   \<and> pythonProcess (timeout RestartCallback h) = pythonProcess h"
  by (simp add: restartPythonBackend_def setTimeout_def stopPythonBackend_def send_def
        startPythonBackend_def locate_then_def Let_def split: option.splits)

theorem restartPythonBackend_order_witness:
  "timers (restartPythonBackend (host_init\<lparr>mainWindow := True, pythonProcess := Some 0, live := [0]\<rparr>)) =
     [(RestartCallback, 1000)]
   \<and> killed (restartPythonBackend (host_init\<lparr>mainWindow := True, pythonProcess := Some 0, live := [0]\<rparr>)) = [0]
   \<and> sent (restartPythonBackend (host_init\<lparr>mainWindow := True, pythonProcess := Some 0, live := [0]\<rparr>)) =
     [(''python-stopped'', NoPayload)]"
  using restartPythonBackend_order[of "host_init\<lparr>mainWindow := True, pythonProcess := Some 0, live := [0]\<rparr>"]
  by (simp add: host_init_def stopPythonBackend_def send_def)

section \<open>Properties of the dependency installer\<close>

text \<open>
  A locator call and the events of its probes: the function given to \<^verbatim>\<open>then\<close> runs once,
  with what the promise was resolved with, and the host is otherwise left alone.
\<close>

lemma continue_locators:
  "continue e c r (h\<lparr>locators := X\<rparr>) = (continue e c r h)\<lparr>locators := X\<rparr>"
  by (cases c)
     (simp_all add: startPythonBackend_then_def installPythonDependencies_then_def send_def
        showErrorBox_def Let_def split: option.splits)

lemma run_probes:
  "result l = None \<Longrightarrow>
   run e (h\<lparr>locators := locators h @ [(l, c)]\<rparr>) (map (Probe (length (locators h))) pevs) =
     (case result (deliver l pevs) of
        None \<Rightarrow> h\<lparr>locators := locators h @ [(deliver l pevs, c)]\<rparr>
      | Some r \<Rightarrow> (continue e c r h)\<lparr>locators := locators h @ [(deliver l pevs, c)]\<rparr>)"
proof (induction pevs rule: rev_induct)
  case Nil
  then show ?case by (simp add: run_Nil deliver_Nil)
next
  case (snoc ev pevs)
  show ?case
  proof (cases "result (deliver l pevs)")
    case None
    with snoc show ?thesis
      by (simp add: run_snoc deliver_snoc probe_step_def continue_locators Let_def
            split: option.splits)
  next
    case (Some r)
    then have "result (probe_handler ev (deliver l pevs)) = Some r" by (rule handler_sticky)
    with Some snoc show ?thesis
      by (simp add: run_snoc deliver_snoc probe_step_def continue_locators Let_def)
  qed
qed

lemma resolved_command:
  assumes "result (deliver locator_init evs) = Some (Some c)"
  shows "c \<noteq> []"
proof -
  from first_stdout[OF assms] obtain pre p where p: "p < length (probes (deliver locator_init pre))"
    "c = command (probes (deliver locator_init pre) ! p)" by blast
  then have "probes (deliver locator_init pre) ! p \<in> set (probes (deliver locator_init pre))"
    by simp
  from probes_wf[OF this] p(2) have "index (probes (deliver locator_init pre) ! p) < length commands"
    "c = commands ! index (probes (deliver locator_init pre) ! p)" by simp_all
  then have "c \<in> set commands" by simp
  then show ?thesis by (auto simp: commands_def)
qed

lemma install_data_acc:
  "k < length (installs h) \<Longrightarrow> \<not> exited (installs h ! k) \<Longrightarrow>
   run e h (map (chunk_event k) cs) =
     h\<lparr>installs := (installs h)[k := (installs h ! k)
          \<lparr>output_acc := output_acc (installs h ! k) @ stdout_text cs,
           errorOutput := errorOutput (installs h ! k) @ stderr_text cs\<rparr>]\<rparr>"
proof (induction cs arbitrary: h rule: stdout_text.induct)
  case 1
  then show ?case by (simp add: run_Nil)
next
  case (2 d cs)
  then show ?case by (simp add: run_Cons install_stdout_def)
next
  case (3 d cs)
  then show ?case by (simp add: run_Cons install_stderr_def)
qed

lemma install_located:
  "run e (installPythonDependencies h) (map (Probe (length (locators h))) pevs) =
     (case result (findPythonExecutable pevs) of
        None \<Rightarrow> h\<lparr>locators := locators h @ [(findPythonExecutable pevs, InstallContinuation)]\<rparr>
      | Some r \<Rightarrow> (installPythonDependencies_then r h)
                   \<lparr>locators := locators h @ [(findPythonExecutable pevs, InstallContinuation)]\<rparr>)"
proof -
  have "result locator_init = None" by (simp add: locator_init_eq)
  from run_probes[OF this, of e h InstallContinuation pevs] show ?thesis
    by (simp add: installPythonDependencies_def locate_then_def findPythonExecutable_def
          split: option.splits)
qed

text \<open>
  Claim C7. \<^verbatim>\<open>installPythonDependencies\<close> starts a locator run. When that run resolves
  with \<^verbatim>\<open>null\<close> the installer shows the error box \<open>Python Not Found\<close> and nothing else
  happens: no install subprocess is created. When it resolves with a command, one install
  subprocess is created and no dialog is shown yet; whatever chunks the subprocess then
  writes to its two streams, in whatever order, when it closes with code 0 the one dialog
  shown is the fixed success message box, which holds none of the text, and when it closes
  with any other code (or none) the one dialog shown is the error box \<open>Installation Failed\<close>
  whose text holds all of the stdout text after \<open>Output:\<close> and all of the stderr text after
  \<open>Errors:\<close>, unchanged.
\<close>

theorem install_reports:
  assumes "result (findPythonExecutable pevs) = Some r"
  shows "(r = None \<longrightarrow>
           run e (installPythonDependencies h) (map (Probe (length (locators h))) pevs) =
             h\<lparr>locators := locators h @ [(findPythonExecutable pevs, InstallContinuation)],
               dialogs := dialogs h @
                 [ErrorBox ''Python Not Found'' ''Cannot install dependencies: Python not found.'']\<rparr>)
   \<and> (r \<noteq> None \<longrightarrow>
        installs (run e (installPythonDependencies h) (map (Probe (length (locators h))) pevs)) =
          installs h @ [\<lparr>output_acc = [], errorOutput = [], exited = False\<rparr>]
        \<and> dialogs (run e (installPythonDependencies h) (map (Probe (length (locators h))) pevs)) =
          dialogs h
        \<and> dialogs (run e (installPythonDependencies h)
             (map (Probe (length (locators h))) pevs @
              map (chunk_event (length (installs h))) cs @
              [InstallClose (length (installs h)) code])) =
           dialogs h @
             [if code = Some 0 then MessageBox dependencies_installed
              else ErrorBox ''Installation Failed''
                     (''Failed to install dependencies.\<newline>\<newline>Output: '' @ stdout_text cs @
                      ''\<newline>Errors: '' @ stderr_text cs)])"
proof (intro conjI impI)
  assume "r = None"
  with assms show "run e (installPythonDependencies h) (map (Probe (length (locators h))) pevs) =
             h\<lparr>locators := locators h @ [(findPythonExecutable pevs, InstallContinuation)],
               dialogs := dialogs h @
                 [ErrorBox ''Python Not Found'' ''Cannot install dependencies: Python not found.'']\<rparr>"
    by (simp add: install_located installPythonDependencies_then_def showErrorBox_def)
next
  assume "r \<noteq> None"
  then obtain c where r: "r = Some c" by auto
  with assms have c: "c \<noteq> []"
    using resolved_command[of pevs c] by (simp add: findPythonExecutable_def)
  let ?h1 = "run e (installPythonDependencies h) (map (Probe (length (locators h))) pevs)"
  let ?k = "length (installs h)"
  have h1: "?h1 = (h\<lparr>installs := installs h @ [\<lparr>output_acc = [], errorOutput = [], exited = False\<rparr>]\<rparr>)
                   \<lparr>locators := locators h @ [(findPythonExecutable pevs, InstallContinuation)]\<rparr>"
    using assms r c by (simp add: install_located installPythonDependencies_then_def)
  show i: "installs ?h1 = installs h @ [\<lparr>output_acc = [], errorOutput = [], exited = False\<rparr>]"
    unfolding h1 by simp
  show d: "dialogs ?h1 = dialogs h"
    unfolding h1 by simp
  have k: "?k < length (installs ?h1)" "\<not> exited (installs ?h1 ! ?k)"
    "installs ?h1 ! ?k = \<lparr>output_acc = [], errorOutput = [], exited = False\<rparr>"
    using i by simp_all
  have split: "run e (installPythonDependencies h)
             (map (Probe (length (locators h))) pevs @ map (chunk_event ?k) cs @ [InstallClose ?k code]) =
        run e (run e ?h1 (map (chunk_event ?k) cs)) [InstallClose ?k code]"
    by (simp add: run_append)
  have "dialogs (run e (run e ?h1 (map (chunk_event ?k) cs)) [InstallClose ?k code]) =
           dialogs h @
             [if code = Some 0 then MessageBox dependencies_installed
              else ErrorBox ''Installation Failed''
                     (''Failed to install dependencies.\<newline>\<newline>Output: '' @ stdout_text cs @
                      ''\<newline>Errors: '' @ stderr_text cs)]"
    unfolding install_data_acc[OF k(1,2)] k(3)
    using k(1) d
    by (simp add: run_Cons run_Nil install_close_def showMessageBox_def showErrorBox_def Let_def)
  then show "dialogs (run e (installPythonDependencies h)
             (map (Probe (length (locators h))) pevs @
              map (chunk_event (length (installs h))) cs @
              [InstallClose (length (installs h)) code])) =
           dialogs h @
             [if code = Some 0 then MessageBox dependencies_installed
              else ErrorBox ''Installation Failed''
                     (''Failed to install dependencies.\<newline>\<newline>Output: '' @ stdout_text cs @
                      ''\<newline>Errors: '' @ stderr_text cs)]"
    unfolding split .
qed

text \<open>
  A run that finds \<open>python\<close> and an install that fails, one that succeeds, and a run in
  which all three candidates fail.
\<close>

theorem install_reports_witness:
  "result (findPythonExecutable [StdoutData 0]) = Some (Some ''python'')
   \<and> dialogs (run dev_env (installPythonDependencies host_init)
      [Probe 0 (StdoutData 0), InstallStdout 0 ''ab'', InstallStderr 0 ''cd'', InstallStdout 0 ''ef'',
       InstallClose 0 (Some 1)]) =
     [ErrorBox ''Installation Failed''
        ''Failed to install dependencies.\<newline>\<newline>Output: abef\<newline>Errors: cd'']
   \<and> dialogs (run dev_env (installPythonDependencies host_init)
      [Probe 0 (StdoutData 0), InstallStdout 0 ''ab'', InstallStderr 0 ''cd'', InstallStdout 0 ''ef'',
       InstallClose 0 (Some 0)]) =
     [MessageBox dependencies_installed]
   \<and> result (findPythonExecutable [ProcError 0, StderrData 1, ProcError 2]) = Some None
   \<and> dialogs (run dev_env (installPythonDependencies host_init)
      [Probe 0 (ProcError 0), Probe 0 (StderrData 1), Probe 0 (ProcError 2)]) =
     [ErrorBox ''Python Not Found'' ''Cannot install dependencies: Python not found.'']
   \<and> installs (run dev_env (installPythonDependencies host_init)
      [Probe 0 (ProcError 0), Probe 0 (StderrData 1), Probe 0 (ProcError 2)]) = []"
proof -
  have f: "result (findPythonExecutable [StdoutData 0]) = Some (Some ''python'')"
    by (simp add: findPythonExecutable_def deliver_def locator_init_eq resolve_def)
  have n: "result (findPythonExecutable [ProcError 0, StderrData 1, ProcError 2]) = Some None"
    by (simp add: findPythonExecutable_def deliver_def locator_init_eq tryNext_def commands_def
          resolve_def)
  have l: "length (installs host_init) = 0" "dialogs host_init = []"
    "length (locators host_init) = 0" "installs host_init = []"
    by (simp_all add: host_init_def)
  have m: "map (Probe 0) [StdoutData 0] @
           map (chunk_event 0) [Out ''ab'', Err ''cd'', Out ''ef''] @ [InstallClose 0 code] =
             [Probe 0 (StdoutData 0), InstallStdout 0 ''ab'', InstallStderr 0 ''cd'',
              InstallStdout 0 ''ef'', InstallClose 0 code]"
    for code by simp
  from install_reports[OF f, of dev_env host_init "[Out ''ab'', Err ''cd'', Out ''ef'']" "Some 1"]
  have a: "dialogs (run dev_env (installPythonDependencies host_init)
      (map (Probe 0) [StdoutData 0] @
       map (chunk_event 0) [Out ''ab'', Err ''cd'', Out ''ef''] @ [InstallClose 0 (Some 1)])) =
     [ErrorBox ''Installation Failed''
        ''Failed to install dependencies.\<newline>\<newline>Output: abef\<newline>Errors: cd'']"
    unfolding l by simp
  from install_reports[OF f, of dev_env host_init "[Out ''ab'', Err ''cd'', Out ''ef'']" "Some 0"]
  have b: "dialogs (run dev_env (installPythonDependencies host_init)
      (map (Probe 0) [StdoutData 0] @
       map (chunk_event 0) [Out ''ab'', Err ''cd'', Out ''ef''] @ [InstallClose 0 (Some 0)])) =
     [MessageBox dependencies_installed]"
    unfolding l by simp
  from install_reports[OF n, of dev_env host_init]
  have "run dev_env (installPythonDependencies host_init)
          (map (Probe 0) [ProcError 0, StderrData 1, ProcError 2]) =
        host_init\<lparr>locators := locators host_init @
            [(findPythonExecutable [ProcError 0, StderrData 1, ProcError 2], InstallContinuation)],
          dialogs := dialogs host_init @
            [ErrorBox ''Python Not Found'' ''Cannot install dependencies: Python not found.'']\<rparr>"
    unfolding l(3) by simp
  then have c: "dialogs (run dev_env (installPythonDependencies host_init)
          [Probe 0 (ProcError 0), Probe 0 (StderrData 1), Probe 0 (ProcError 2)]) =
        [ErrorBox ''Python Not Found'' ''Cannot install dependencies: Python not found.'']"
    and d: "installs (run dev_env (installPythonDependencies host_init)
          [Probe 0 (ProcError 0), Probe 0 (StderrData 1), Probe 0 (ProcError 2)]) = []"
    by (simp_all add: l)
  from f n a b c d show ?thesis unfolding m by simp
qed

section \<open>Properties of the bridge\<close>

lemma call_onPythonOutput:
  "bridge_call ''onPythonOutput'' arg = Some (On ''python-output'' arg, IpcRenderer)"
  by (simp add: bridge_call_def electronAPI_def ipcRenderer_on_def)

lemma call_onPythonError:
  "bridge_call ''onPythonError'' arg = Some (On ''python-error'' arg, IpcRenderer)"
  by (simp add: bridge_call_def electronAPI_def ipcRenderer_on_def)

lemma call_onPythonClosed:
  "bridge_call ''onPythonClosed'' arg = Some (On ''python-closed'' arg, IpcRenderer)"
  by (simp add: bridge_call_def electronAPI_def ipcRenderer_on_def)

lemma call_onPythonStopped:
  "bridge_call ''onPythonStopped'' arg = Some (On ''python-stopped'' arg, IpcRenderer)"
  by (simp add: bridge_call_def electronAPI_def ipcRenderer_on_def)

lemma call_onPythonRestarted:
  "bridge_call ''onPythonRestarted'' arg = Some (On ''python-restarted'' arg, IpcRenderer)"
  by (simp add: bridge_call_def electronAPI_def ipcRenderer_on_def)

lemma call_getAppVersion:
  "bridge_call ''getAppVersion'' arg = Some (Invoke ''get-app-version'' [], ReplyPromise)"
  by (simp add: bridge_call_def electronAPI_def ipcRenderer_invoke_def)

lemma call_showMessageBox:
  "bridge_call ''showMessageBox'' arg = Some (Invoke ''show-message-box'' [arg], ReplyPromise)"
  by (simp add: bridge_call_def electronAPI_def ipcRenderer_invoke_def)

lemma call_removeAllListeners:
  "bridge_call ''removeAllListeners'' arg = Some (RemoveAllListeners arg, IpcRenderer)"
  by (simp add: bridge_call_def electronAPI_def ipcRenderer_removeAllListeners_def)

lemma electronAPI_names:
  "map fst (electronAPI :: (string \<times> ('a \<Rightarrow> 'a ipc \<times> returned)) list) =
     [''onPythonOutput'', ''onPythonError'', ''onPythonClosed'', ''onPythonStopped'',
      ''onPythonRestarted'', ''getAppVersion'', ''showMessageBox'', ''removeAllListeners'']"
  by (simp add: electronAPI_def)

lemma bridge_call_cases:
  "bridge_call name (arg::'a) =
    (if name = ''onPythonOutput'' then Some (On ''python-output'' arg, IpcRenderer)
     else if name = ''onPythonError'' then Some (On ''python-error'' arg, IpcRenderer)
     else if name = ''onPythonClosed'' then Some (On ''python-closed'' arg, IpcRenderer)
     else if name = ''onPythonStopped'' then Some (On ''python-stopped'' arg, IpcRenderer)
     else if name = ''onPythonRestarted'' then Some (On ''python-restarted'' arg, IpcRenderer)
     else if name = ''getAppVersion'' then Some (Invoke ''get-app-version'' [], ReplyPromise)
     else if name = ''showMessageBox'' then Some (Invoke ''show-message-box'' [arg], ReplyPromise)
     else if name = ''removeAllListeners'' then Some (RemoveAllListeners arg, IpcRenderer)
     else None)"
  by (simp add: bridge_call_def electronAPI_def ipcRenderer_on_def ipcRenderer_invoke_def
        ipcRenderer_removeAllListeners_def)

lemma bridge_call_Some:
  "bridge_call name (arg::'a) = Some r \<Longrightarrow>
     (name = ''onPythonOutput'' \<and> r = (On ''python-output'' arg, IpcRenderer))
   \<or> (name = ''onPythonError'' \<and> r = (On ''python-error'' arg, IpcRenderer))
   \<or> (name = ''onPythonClosed'' \<and> r = (On ''python-closed'' arg, IpcRenderer))
   \<or> (name = ''onPythonStopped'' \<and> r = (On ''python-stopped'' arg, IpcRenderer))
   \<or> (name = ''onPythonRestarted'' \<and> r = (On ''python-restarted'' arg, IpcRenderer))
   \<or> (name = ''getAppVersion'' \<and> r = (Invoke ''get-app-version'' [], ReplyPromise))
   \<or> (name = ''showMessageBox'' \<and> r = (Invoke ''show-message-box'' [arg], ReplyPromise))
   \<or> (name = ''removeAllListeners'' \<and> r = (RemoveAllListeners arg, IpcRenderer))"
  unfolding bridge_call_cases by (simp split: if_splits)

lemma bridge_call_defined:
  "bridge_call name (arg::'a) \<noteq> None \<longleftrightarrow>
     name \<in> set (map fst (electronAPI :: (string \<times> ('a \<Rightarrow> 'a ipc \<times> returned)) list))"
  unfolding electronAPI_names unfolding bridge_call_cases by simp

lemma subscribe_channels:
  "{c. \<exists>name (arg::'a) cb ret. bridge_call name arg = Some (On c cb, ret)} = set lifecycle_channels"
proof (intro equalityI subsetI)
  fix c assume "c \<in> {c. \<exists>name (arg::'a) cb ret. bridge_call name arg = Some (On c cb, ret)}"
  then obtain name and arg :: 'a and cb ret where "bridge_call name arg = Some (On c cb, ret)"
    by blast
  from bridge_call_Some[OF this] show "c \<in> set lifecycle_channels"
    by (auto simp: lifecycle_channels_def)
next
  fix c assume "c \<in> set lifecycle_channels"
  then have "\<exists>name. bridge_call name (undefined::'a) = Some (On c undefined, IpcRenderer)"
    unfolding lifecycle_channels_def
    using call_onPythonOutput call_onPythonError call_onPythonClosed call_onPythonStopped
      call_onPythonRestarted by fastforce
  then show "c \<in> {c. \<exists>name (arg::'a) cb ret. bridge_call name arg = Some (On c cb, ret)}"
    by blast
qed

lemma invoke_channels:
  "{c. \<exists>name (arg::'a) args ret. bridge_call name arg = Some (Invoke c args, ret)} =
     {''get-app-version'', ''show-message-box''}"
proof (intro equalityI subsetI)
  fix c assume "c \<in> {c. \<exists>name (arg::'a) args ret. bridge_call name arg = Some (Invoke c args, ret)}"
  then obtain name and arg :: 'a and args ret where "bridge_call name arg = Some (Invoke c args, ret)"
    by blast
  from bridge_call_Some[OF this] show "c \<in> {''get-app-version'', ''show-message-box''}" by auto
next
  fix c :: string assume "c \<in> {''get-app-version'', ''show-message-box''}"
  then have "\<exists>name args. bridge_call name (undefined::'a) = Some (Invoke c args, ReplyPromise)"
    using call_getAppVersion call_showMessageBox by fastforce
  then show "c \<in> {c. \<exists>name (arg::'a) args ret. bridge_call name arg = Some (Invoke c args, ret)}"
    by blast
qed

lemma page_gets_ipcRenderer_iff: "page_gets_ipcRenderer lets_through \<longleftrightarrow> lets_through"
  by (simp add: page_gets_ipcRenderer_def hands_over_def electronAPI_def ipcRenderer_on_def)

lemma page_can_invoke_iff:
  "page_can_invoke lets_through c \<longleftrightarrow>
     c = ''get-app-version'' \<or> c = ''show-message-box'' \<or> lets_through"
  unfolding page_can_invoke_def page_gets_ipcRenderer_iff
  by (simp add: electronAPI_def ipcRenderer_on_def ipcRenderer_invoke_def
        ipcRenderer_removeAllListeners_def eq_commute)

text \<open>
  The calls the eight properties make: the page can subscribe to exactly the five lifecycle
  channels, invoke exactly two channels and remove the listeners of a channel it names; the
  main process handles a third channel, \<open>install-dependencies\<close>, that no property invokes,
  and sends on the five lifecycle channels only. Every property but the two that invoke
  returns \<^verbatim>\<open>ipcRenderer\<close> to the page.
\<close>

lemma bridge_calls:
  "map fst (electronAPI :: (string \<times> ('a \<Rightarrow> 'a ipc \<times> returned)) list) =
     [''onPythonOutput'', ''onPythonError'', ''onPythonClosed'', ''onPythonStopped'',
      ''onPythonRestarted'', ''getAppVersion'', ''showMessageBox'', ''removeAllListeners'']
   \<and> (\<forall>name (arg::'a). bridge_call name arg \<noteq> None \<longleftrightarrow>
         name \<in> set (map fst (electronAPI :: (string \<times> ('a \<Rightarrow> 'a ipc \<times> returned)) list)))
   \<and> {c. \<exists>name (arg::'a) cb ret. bridge_call name arg = Some (On c cb, ret)} = set lifecycle_channels
   \<and> {c. \<exists>name (arg::'a) args ret. bridge_call name arg = Some (Invoke c args, ret)} =
        {''get-app-version'', ''show-message-box''}
   \<and> (\<forall>name (arg::'a) x ret. bridge_call name arg = Some (RemoveAllListeners x, ret) \<longleftrightarrow>
         name = ''removeAllListeners'' \<and> x = arg \<and> ret = IpcRenderer)
   \<and> (\<forall>name (arg::'a) call. bridge_call name arg = Some (call, IpcRenderer) \<longrightarrow>
         name \<noteq> ''getAppVersion'' \<and> name \<noteq> ''showMessageBox'')
   \<and> {c. \<exists>options h. ipcMain_handle c options h \<noteq> None} =
        {''get-app-version'', ''show-message-box'', ''install-dependencies''}
   \<and> (\<forall>c. page_can_invoke False c \<longleftrightarrow> c = ''get-app-version'' \<or> c = ''show-message-box'')
   \<and> (\<forall>c. page_can_invoke True c)
   \<and> (\<forall>e evs. fst ` set (sent (run e host_init evs)) \<subseteq> set lifecycle_channels)"
proof (intro conjI)
  show "\<forall>name (arg::'a). bridge_call name arg \<noteq> None \<longleftrightarrow>
         name \<in> set (map fst (electronAPI :: (string \<times> ('a \<Rightarrow> 'a ipc \<times> returned)) list))"
    by (intro allI) (rule bridge_call_defined)
  show "\<forall>name (arg::'a) x ret. bridge_call name arg = Some (RemoveAllListeners x, ret) \<longleftrightarrow>
         name = ''removeAllListeners'' \<and> x = arg \<and> ret = IpcRenderer"
  proof (intro allI iffI)
    fix name and arg x :: 'a and ret
    assume "bridge_call name arg = Some (RemoveAllListeners x, ret)"
    from bridge_call_Some[OF this] show "name = ''removeAllListeners'' \<and> x = arg \<and> ret = IpcRenderer"
      by auto
  next
    fix name and arg x :: 'a and ret
    assume "name = ''removeAllListeners'' \<and> x = arg \<and> ret = IpcRenderer"
    then show "bridge_call name arg = Some (RemoveAllListeners x, ret)"
      by (simp add: call_removeAllListeners)
  qed
  show "\<forall>name (arg::'a) call. bridge_call name arg = Some (call, IpcRenderer) \<longrightarrow>
         name \<noteq> ''getAppVersion'' \<and> name \<noteq> ''showMessageBox''"
  proof (intro allI impI)
    fix name and arg :: 'a and call
    assume "bridge_call name arg = Some (call, IpcRenderer)"
    then show "name \<noteq> ''getAppVersion'' \<and> name \<noteq> ''showMessageBox''"
      unfolding bridge_call_cases by (simp split: if_splits)
  qed
  show "{c. \<exists>options h. ipcMain_handle c options h \<noteq> None} =
        {''get-app-version'', ''show-message-box'', ''install-dependencies''}"
    by (auto simp: ipcMain_handle_def split: if_splits)
  show "\<forall>c. page_can_invoke False c \<longleftrightarrow> c = ''get-app-version'' \<or> c = ''show-message-box''"
    by (simp add: page_can_invoke_iff)
  show "\<forall>c. page_can_invoke True c"
    by (simp add: page_can_invoke_iff)
  show "\<forall>e evs. fst ` set (sent (run e host_init evs)) \<subseteq> set lifecycle_channels"
  proof (intro allI subsetI)
    fix e evs c assume "c \<in> fst ` set (sent (run e host_init evs))"
    then obtain m where m: "m \<in> set (sent (run e host_init evs))" "c = fst m" by auto
    with run_sent_ok[of e evs] have "lifecycle_message m" unfolding list_all_iff by blast
    with m show "c \<in> set lifecycle_channels" using lifecycle_message_channel by simp
  qed
qed (rule electronAPI_names subscribe_channels invoke_channels)+


end
